theory Spec2Isabelle
  imports Complex_Main "HOL-Library.Multiset"
begin

section \<open>Course entitlements: data model\<close>

text \<open>
  A shallow embedding of \<^verbatim>\<open>common/djangoapps/entitlements/models.py\<close>.

  Instants (\<^verbatim>\<open>datetime\<close>) and durations (\<^verbatim>\<open>timedelta\<close>) are counted in
  microseconds, the resolution of both Python types, instants from 1970-01-01. The
  \<^verbatim>\<open>.days\<close> attribute of a \<^verbatim>\<open>timedelta\<close> is its normalised day component, which
  is the floor of the duration divided by one day
  (\<^verbatim>\<open>timedelta(microseconds=-1).days == -1\<close>), as \<open>div\<close> on \<open>int\<close> is.

  A \<^verbatim>\<open>datetime\<close> lies between \<^verbatim>\<open>datetime.min\<close> (0001-01-01, 719162 days before
  1970-01-01) and \<^verbatim>\<open>datetime.max\<close> (the last microsecond of 9999-12-31, which is day
  2932896 from 1970-01-01). The instants stored in rows and the clock readings are
  datetimes. Adding a \<^verbatim>\<open>timedelta\<close> to a \<^verbatim>\<open>datetime\<close> raises
  \<^verbatim>\<open>OverflowError\<close> when the sum leaves that range; the difference of two datetimes is
  a \<^verbatim>\<open>timedelta\<close> and always exists (a \<^verbatim>\<open>timedelta\<close> holds up to 999999999
  days either way, more than the whole range of \<^verbatim>\<open>datetime\<close>). Subtracting
  \<^verbatim>\<open>None\<close> from a \<^verbatim>\<open>datetime\<close> raises \<^verbatim>\<open>TypeError\<close>.

  The clock \<^verbatim>\<open>now()\<close> is read as one instant per operation and passed as the
  argument \<open>now\<close>.
\<close>

type_synonym datetime = int
type_synonym timedelta = int
type_synonym course_key = string
type_synonym uuid = string
type_synonym user_id = nat
type_synonym generated_certificate = nat

definition one_day :: timedelta where
  "one_day = 86400000000"

definition timedelta_days :: "int \<Rightarrow> timedelta" where
  \<comment> \<open>\<^verbatim>\<open>timedelta(days=n)\<close>\<close>
  "timedelta_days n = n * one_day"

definition days :: "timedelta \<Rightarrow> int" where
  \<comment> \<open>\<^verbatim>\<open>td.days\<close>\<close>
  "days td = td div one_day"

text \<open>
  Exceptions. \<open>CourseEnrollmentException\<close> stands for the class of that name and its
  subclasses, the ones that \<^verbatim>\<open>except CourseEnrollmentException\<close> catches;
  \<open>AttributeError\<close> is what Python raises for a method call on \<^verbatim>\<open>None\<close>,
  \<open>OverflowError\<close> for a date out of range, \<open>TypeError\<close> for arithmetic on
  \<^verbatim>\<open>None\<close>; \<open>Exception s\<close> is any other exception that a collaborator raises.
\<close>

datatype exn =
  CourseEnrollmentException | AttributeError | OverflowError | TypeError | Exception string

definition datetime_min :: datetime where
  "datetime_min = timedelta_days (- 719162)"

definition datetime_max :: datetime where
  "datetime_max = timedelta_days 2932897 - 1"

definition is_datetime :: "int \<Rightarrow> bool" where
  "is_datetime t = (datetime_min \<le> t \<and> t \<le> datetime_max)"

definition datetime_add :: "datetime \<Rightarrow> timedelta \<Rightarrow> exn + datetime" where
  \<comment> \<open>\<^verbatim>\<open>dt + td\<close>\<close>
  "datetime_add dt td = (if is_datetime (dt + td) then Inr (dt + td) else Inl OverflowError)"

text \<open>
  A \<^verbatim>\<open>CourseOverview\<close>: the field that the entitlement code reads, the start date of
  the run, which may be \<^verbatim>\<open>None\<close>.
\<close>

record course_overview =
  overview_id :: course_key
  start :: "datetime option"

text \<open>A row of \<^verbatim>\<open>student.CourseEnrollment\<close>: the fields that the entitlement code reads.\<close>

record course_enrollment =
  enrollment_pk :: nat
  enrollment_user :: user_id
  course_id :: course_key
  enrollment_created :: datetime

record course_entitlement_policy =
  expiration_period :: timedelta
  refund_period :: timedelta
  regain_period :: timedelta
  site :: "nat option"

text \<open>
  A \<^verbatim>\<open>CourseEntitlement\<close>. \<open>pk\<close> is the primary key of the row, \<open>created\<close> the field
  inherited from \<^verbatim>\<open>TimeStampedModel\<close>, \<open>policy_ref\<close> the nullable foreign key
  \<^verbatim>\<open>_policy\<close>. The nullable foreign key \<^verbatim>\<open>enrollment_course_run\<close> holds the enrollment
  row it points to. The field \<^verbatim>\<open>modified\<close>, which no method here reads, is left out.
  A model instance and a \<^verbatim>\<open>datetime\<close> are always truthy, so
  \<^verbatim>\<open>if entitlement.expired_at\<close> and \<^verbatim>\<open>if entitlement.enrollment_course_run\<close> test for
  \<^verbatim>\<open>None\<close>.
\<close>

record course_entitlement =
  pk :: nat
  user :: user_id
  uuid :: uuid
  course_uuid :: uuid
  expired_at :: "datetime option"
  mode :: string
  enrollment_course_run :: "course_enrollment option"
  order_number :: "string option"
  policy_ref :: "course_entitlement_policy option"
  created :: datetime

text \<open>
  The collaborators that the module imports and calls. Their code is outside the module,
  so each is a parameter; a call that raises returns \<open>Inl\<close>.
  \<^item> \<open>get_from_id\<close>: \<^verbatim>\<open>CourseOverview.get_from_id(course_id)\<close>;
  \<^item> \<open>certificate_for_student\<close>: \<^verbatim>\<open>GeneratedCertificate.certificate_for_student(user_id, course_id)\<close>,
    a certificate or \<^verbatim>\<open>None\<close>;
  \<^item> \<open>enroll\<close>: \<^verbatim>\<open>CourseEnrollment.enroll(user, course_key, mode)\<close>;
  \<^item> \<open>get_course_uuid_for_course\<close>: the catalog lookup, a UUID or \<^verbatim>\<open>None\<close>;
  \<^item> \<open>is_course_run_entitlement_fulfillable\<close>: the check of \<^verbatim>\<open>entitlements.utils\<close>, called
    with whatever \<^verbatim>\<open>first()\<close> returned, an entitlement or \<^verbatim>\<open>None\<close>.
\<close>

record collaborators =
  get_from_id :: "course_key \<Rightarrow> exn + course_overview"
  certificate_for_student :: "user_id \<Rightarrow> course_key \<Rightarrow> exn + generated_certificate option"
  enroll :: "user_id \<Rightarrow> course_key \<Rightarrow> string \<Rightarrow> exn + course_enrollment"
  get_course_uuid_for_course :: "course_key \<Rightarrow> uuid option"
  is_course_run_entitlement_fulfillable :: "course_key \<Rightarrow> course_entitlement option \<Rightarrow> exn + bool"

section \<open>CourseEntitlementPolicy\<close>

definition DEFAULT_EXPIRATION_PERIOD_DAYS :: int where
  "DEFAULT_EXPIRATION_PERIOD_DAYS = 450"

definition DEFAULT_REFUND_PERIOD_DAYS :: int where
  "DEFAULT_REFUND_PERIOD_DAYS = 60"

definition DEFAULT_REGAIN_PERIOD_DAYS :: int where
  "DEFAULT_REGAIN_PERIOD_DAYS = 14"

definition CourseEntitlementPolicy :: course_entitlement_policy where
  \<comment> \<open>\<^verbatim>\<open>CourseEntitlementPolicy()\<close>: every field at its default\<close>
  "CourseEntitlementPolicy =
     \<lparr>expiration_period = timedelta_days DEFAULT_EXPIRATION_PERIOD_DAYS,
      refund_period = timedelta_days DEFAULT_REFUND_PERIOD_DAYS,
      regain_period = timedelta_days DEFAULT_REGAIN_PERIOD_DAYS,
      site = None\<rparr>"

definition get_days_since_created :: "datetime \<Rightarrow> course_entitlement \<Rightarrow> int" where
  "get_days_since_created now self = days (now - created self)"

definition get_days_until_expiration ::
  "collaborators \<Rightarrow> datetime \<Rightarrow> course_entitlement_policy \<Rightarrow> course_entitlement \<Rightarrow> exn + int" where
  "get_days_until_expiration env now self entitlement =
     (let now_timestamp = now
      in case datetime_add (created entitlement) (expiration_period self) of
           Inl err \<Rightarrow> Inl err
         | Inr expiry_date \<Rightarrow>
             (let days_until_expiry = days (expiry_date - now_timestamp)
              in case enrollment_course_run entitlement of
                   None \<Rightarrow> Inr days_until_expiry
                 | Some enrollment \<Rightarrow>
                     (case get_from_id env (course_id enrollment) of
                        Inl err \<Rightarrow> Inl err
                      | Inr course_overview \<Rightarrow>
                          (case start course_overview of
                             None \<Rightarrow> Inl TypeError
                           | Some course_start \<Rightarrow>
                               (let days_since_course_start = days (now_timestamp - course_start);
                                    days_since_enrollment =
                                      days (now_timestamp - enrollment_created enrollment);
                                    days_since_entitlement_created =
                                      days (now_timestamp - created entitlement);
                                    days_until_regain_ends =
                                      days (regain_period self)
                                        - min days_since_course_start
                                            (min days_since_enrollment
                                               days_since_entitlement_created)
                                in if days_until_expiry < days_until_regain_ends
                                   then Inr days_until_expiry
                                   else Inr days_until_regain_ends)))))"

definition is_entitlement_regainable ::
  "collaborators \<Rightarrow> datetime \<Rightarrow> course_entitlement_policy \<Rightarrow> course_entitlement \<Rightarrow> exn + bool" where
  "is_entitlement_regainable env now self entitlement =
     (if expired_at entitlement \<noteq> None then Inr False
      else case enrollment_course_run entitlement of
             Some enrollment \<Rightarrow>
               (case certificate_for_student env (user entitlement) (course_id enrollment) of
                  Inl err \<Rightarrow> Inl err
                | Inr (Some certificate) \<Rightarrow> Inr False
                | Inr None \<Rightarrow>
                    (case get_days_until_expiration env now self entitlement of
                       Inl err \<Rightarrow> Inl err
                     | Inr d \<Rightarrow> Inr (d \<ge> 0)))
           | None \<Rightarrow> Inr False)"

definition is_entitlement_refundable ::
  "collaborators \<Rightarrow> datetime \<Rightarrow> course_entitlement_policy \<Rightarrow> course_entitlement \<Rightarrow> exn + bool" where
  "is_entitlement_refundable env now self entitlement =
     (if expired_at entitlement \<noteq> None then Inr False
      else if order_number entitlement = None then Inr False
      else if get_days_since_created now entitlement > days (refund_period self) then Inr False
      else if enrollment_course_run entitlement \<noteq> None
           then is_entitlement_regainable env now self entitlement
      else Inr True)"

definition is_entitlement_redeemable ::
  "datetime \<Rightarrow> course_entitlement_policy \<Rightarrow> course_entitlement \<Rightarrow> bool" where
  "is_entitlement_redeemable now self entitlement =
     (get_days_since_created now entitlement < days (expiration_period self)
      \<and> \<not> (enrollment_course_run entitlement \<noteq> None)
      \<and> \<not> (expired_at entitlement \<noteq> None))"

section \<open>CourseEntitlement\<close>

definition policy :: "course_entitlement \<Rightarrow> course_entitlement_policy" where
  \<comment> \<open>the property \<^verbatim>\<open>policy\<close>: \<^verbatim>\<open>self._policy or CourseEntitlementPolicy()\<close>\<close>
  "policy self = (case policy_ref self of Some p \<Rightarrow> p | None \<Rightarrow> CourseEntitlementPolicy)"

definition CourseEntitlement_get_days_until_expiration ::
  "collaborators \<Rightarrow> datetime \<Rightarrow> course_entitlement \<Rightarrow> exn + int" where
  "CourseEntitlement_get_days_until_expiration env now self =
     get_days_until_expiration env now (policy self) self"

definition CourseEntitlement_is_entitlement_regainable ::
  "collaborators \<Rightarrow> datetime \<Rightarrow> course_entitlement \<Rightarrow> exn + bool" where
  "CourseEntitlement_is_entitlement_regainable env now self =
     is_entitlement_regainable env now (policy self) self"

definition CourseEntitlement_is_entitlement_refundable ::
  "collaborators \<Rightarrow> datetime \<Rightarrow> course_entitlement \<Rightarrow> exn + bool" where
  "CourseEntitlement_is_entitlement_refundable env now self =
     is_entitlement_refundable env now (policy self) self"

definition CourseEntitlement_is_entitlement_redeemable ::
  "datetime \<Rightarrow> course_entitlement \<Rightarrow> bool" where
  "CourseEntitlement_is_entitlement_redeemable now self =
     is_entitlement_redeemable now (policy self) self"

subsection \<open>The table and \<^verbatim>\<open>save\<close>\<close>

text \<open>
  The table of entitlements is the list of its rows. \<^verbatim>\<open>self.save()\<close> writes the
  object over the row with its primary key, or adds a row when there is none. A method
  that mutates \<^verbatim>\<open>self\<close> returns the object after the call beside the table.
\<close>

type_synonym entitlement_table = "course_entitlement list"

definition save :: "course_entitlement \<Rightarrow> entitlement_table \<Rightarrow> entitlement_table" where
  "save self db =
     (if pk self \<in> pk ` set db
      then map (\<lambda>row. if pk row = pk self then self else row) db
      else db @ [self])"

definition update_expired_at ::
  "collaborators \<Rightarrow> datetime \<Rightarrow> course_entitlement \<Rightarrow> entitlement_table
     \<Rightarrow> exn + (course_entitlement \<times> entitlement_table)" where
  "update_expired_at env now self db =
     (if \<not> (expired_at self \<noteq> None) then
        (case get_days_until_expiration env now (policy self) self of
           Inl err \<Rightarrow> Inl err
         | Inr d \<Rightarrow>
             if d < 0
             then Inr (self\<lparr>expired_at := Some now\<rparr>, save (self\<lparr>expired_at := Some now\<rparr>) db)
             else (case enrollment_course_run self of
                     None \<Rightarrow> Inr (self, db)
                   | Some enrollment \<Rightarrow>
                       (case CourseEntitlement_is_entitlement_regainable env now self of
                          Inl err \<Rightarrow> Inl err
                        | Inr regainable \<Rightarrow>
                            if \<not> regainable
                            then Inr (self\<lparr>expired_at := Some now\<rparr>,
                                      save (self\<lparr>expired_at := Some now\<rparr>) db)
                            else Inr (self, db))))
      else Inr (self, db))"

text \<open>Calling \<^verbatim>\<open>update_expired_at\<close> once at each of a list of clock readings, in order.\<close>

fun update_expired_at_repeatedly ::
  "collaborators \<Rightarrow> datetime list \<Rightarrow> course_entitlement \<Rightarrow> entitlement_table
     \<Rightarrow> exn + (course_entitlement \<times> entitlement_table)" where
  "update_expired_at_repeatedly env [] self db = Inr (self, db)"
| "update_expired_at_repeatedly env (now # nows) self db =
     (case update_expired_at env now self db of
        Inl err \<Rightarrow> Inl err
      | Inr (self', db') \<Rightarrow> update_expired_at_repeatedly env nows self' db')"

definition set_enrollment ::
  "course_entitlement \<Rightarrow> course_enrollment option \<Rightarrow> entitlement_table
     \<Rightarrow> course_entitlement \<times> entitlement_table" where
  "set_enrollment self enrollment db =
     (self\<lparr>enrollment_course_run := enrollment\<rparr>,
      save (self\<lparr>enrollment_course_run := enrollment\<rparr>) db)"

subsection \<open>Queries\<close>

text \<open>
  \<^verbatim>\<open>filter(**kw)\<close> keeps the rows that satisfy every condition, \<^verbatim>\<open>exclude(**kw)\<close> drops
  the rows that satisfy every condition (both conditions are on columns of the table
  itself). \<^verbatim>\<open>order_by('-created')\<close> sorts newest first; the database leaves the order of
  rows with equal \<^verbatim>\<open>created\<close> open, the model keeps them in table order. \<^verbatim>\<open>first()\<close>
  is the first row of an ordered queryset, or \<^verbatim>\<open>None\<close>.
\<close>

definition exclude :: "('a \<Rightarrow> bool) \<Rightarrow> 'a list \<Rightarrow> 'a list" where
  "exclude P qs = filter (\<lambda>row. \<not> P row) qs"

definition order_by_created_desc :: "entitlement_table \<Rightarrow> entitlement_table" where
  "order_by_created_desc qs = sort_key (\<lambda>row. - created row) qs"

definition first :: "'a list \<Rightarrow> 'a option" where
  "first qs = (case qs of [] \<Rightarrow> None | row # _ \<Rightarrow> Some row)"

definition get_active_entitlements_for_user ::
  "entitlement_table \<Rightarrow> user_id \<Rightarrow> entitlement_table" where
  "get_active_entitlements_for_user db usr =
     exclude (\<lambda>row. expired_at row \<noteq> None \<and> enrollment_course_run row = None)
       (filter (\<lambda>row. user row = usr) db)"

definition get_fulfillable_entitlements ::
  "entitlement_table \<Rightarrow> user_id \<Rightarrow> entitlement_table" where
  "get_fulfillable_entitlements db usr =
     order_by_created_desc
       (exclude (\<lambda>row. expired_at row \<noteq> None \<and> enrollment_course_run row \<noteq> None)
          (filter (\<lambda>row. user row = usr) db))"

definition get_fulfillable_entitlement_for_user_course_run ::
  "collaborators \<Rightarrow> datetime \<Rightarrow> entitlement_table \<Rightarrow> user_id \<Rightarrow> course_key
     \<Rightarrow> exn + course_entitlement option" where
  "get_fulfillable_entitlement_for_user_course_run env now db usr course_run_key =
     (let entitlements = get_fulfillable_entitlements db usr
      in if entitlements \<noteq> [] then
           (case get_course_uuid_for_course env course_run_key of
              Some c_uuid \<Rightarrow>
                (let entitlement = first (filter (\<lambda>row. course_uuid row = c_uuid) entitlements)
                 in case is_course_run_entitlement_fulfillable env course_run_key entitlement of
                      Inl err \<Rightarrow> Inl err
                    | Inr False \<Rightarrow> Inr None
                    | Inr True \<Rightarrow>
                        (case entitlement of
                           None \<Rightarrow> Inl AttributeError
                         | Some e \<Rightarrow>
                             if CourseEntitlement_is_entitlement_redeemable now e
                             then Inr (Some e)
                             else Inr None))
            | None \<Rightarrow> Inr None)
         else Inr None)"

subsection \<open>Redemption\<close>

text \<open>
  \<^verbatim>\<open>enroll_user_and_fulfill_entitlement\<close> runs under \<^verbatim>\<open>transaction.atomic\<close>: an
  exception that leaves it undoes its writes, which is the result \<open>Inl\<close> here, carrying no
  table. A \<^verbatim>\<open>CourseEnrollmentException\<close> is caught inside (and logged), and the method
  returns \<^verbatim>\<open>False\<close>.
\<close>

definition enroll_user_and_fulfill_entitlement ::
  "collaborators \<Rightarrow> course_entitlement \<Rightarrow> course_key \<Rightarrow> entitlement_table
     \<Rightarrow> exn + (bool \<times> course_entitlement \<times> entitlement_table)" where
  "enroll_user_and_fulfill_entitlement env entitlement course_run_key db =
     (case enroll env (user entitlement) course_run_key (mode entitlement) of
        Inl CourseEnrollmentException \<Rightarrow> Inr (False, entitlement, db)
      | Inl err \<Rightarrow> Inl err
      | Inr enrollment \<Rightarrow>
          (case set_enrollment entitlement (Some enrollment) db of
             (entitlement', db') \<Rightarrow> Inr (True, entitlement', db')))"

definition check_for_existing_entitlement_and_enroll ::
  "collaborators \<Rightarrow> datetime \<Rightarrow> entitlement_table \<Rightarrow> user_id \<Rightarrow> course_key
     \<Rightarrow> exn + (bool \<times> entitlement_table)" where
  "check_for_existing_entitlement_and_enroll env now db usr course_run_key =
     (case get_fulfillable_entitlement_for_user_course_run env now db usr course_run_key of
        Inl err \<Rightarrow> Inl err
      | Inr None \<Rightarrow> Inr (False, db)
      | Inr (Some entitlement) \<Rightarrow>
          (case enroll_user_and_fulfill_entitlement env entitlement course_run_key db of
             Inl err \<Rightarrow> Inl err
           | Inr (fulfilled, entitlement', db') \<Rightarrow> Inr (fulfilled, db')))"

section \<open>The specification's vocabulary\<close>

text \<open>
  The specification counts a duration ``floor, in days'': the largest whole number of days
  that does not exceed it.
\<close>

definition floor_in_days :: "timedelta \<Rightarrow> int" where
  "floor_in_days td = \<lfloor>real_of_int td / real_of_int one_day\<rfloor>"

section \<open>Example data\<close>

text \<open>
  Three course runs are known to the collaborators of the examples: \<open>''run-A''\<close> of course
  \<open>''course-A''\<close>, which starts on day 10, \<open>''run-late''\<close> of the same course, which starts on
  day 440, and \<open>''run-B''\<close> of course \<open>''course-B''\<close>, which starts on day 10. The run
  \<open>''run-unscheduled''\<close> has no start date. Any other course overview is missing. Nobody holds a certificate, enrolling succeeds except in
  \<open>''run-full''\<close>, and every run is judged fulfillable.
\<close>

definition example_collaborators :: collaborators where
  "example_collaborators =
     \<lparr>get_from_id = (\<lambda>k.
         if k = ''run-A'' \<or> k = ''run-B''
         then Inr \<lparr>overview_id = k, start = Some (timedelta_days 10)\<rparr>
         else if k = ''run-late''
         then Inr \<lparr>overview_id = k, start = Some (timedelta_days 440)\<rparr>
         else if k = ''run-unscheduled'' then Inr \<lparr>overview_id = k, start = None\<rparr>
         else Inl (Exception ''CourseOverview.DoesNotExist'')),
      certificate_for_student = (\<lambda>u k. Inr None),
      enroll = (\<lambda>u k m.
         if k = ''run-full'' then Inl CourseEnrollmentException
         else Inr \<lparr>enrollment_pk = 7, enrollment_user = u, course_id = k,
                   enrollment_created = timedelta_days 10\<rparr>),
      get_course_uuid_for_course = (\<lambda>k.
         if k = ''run-A'' \<or> k = ''run-late'' \<or> k = ''run-full'' then Some ''course-A''
         else if k = ''run-B'' then Some ''course-B''
         else None),
      is_course_run_entitlement_fulfillable = (\<lambda>k e. Inr True)\<rparr>"

text \<open>An entitlement of user 1 for \<open>''course-A''\<close>, bought at instant 0 and not redeemed.\<close>

definition example_entitlement :: course_entitlement where
  "example_entitlement =
     \<lparr>pk = 1, user = 1, uuid = ''e-1'', course_uuid = ''course-A'', expired_at = None,
      mode = ''verified'', enrollment_course_run = None, order_number = Some ''ORDER-1'',
      policy_ref = None, created = 0\<rparr>"

definition example_enrollment :: course_enrollment where
  "example_enrollment =
     \<lparr>enrollment_pk = 5, enrollment_user = 1, course_id = ''run-A'',
      enrollment_created = timedelta_days 10\<rparr>"

text \<open>The same entitlement, redeemed on day 10 for \<open>''run-A''\<close>.\<close>

definition example_redeemed :: course_entitlement where
  "example_redeemed = example_entitlement\<lparr>enrollment_course_run := Some example_enrollment\<rparr>"

text \<open>The same entitlement, redeemed on day 440 for \<open>''run-late''\<close>.\<close>

definition late_enrollment :: course_enrollment where
  "late_enrollment =
     \<lparr>enrollment_pk = 6, enrollment_user = 1, course_id = ''run-late'',
      enrollment_created = timedelta_days 440\<rparr>"

definition late_redeemed :: course_entitlement where
  "late_redeemed = example_entitlement\<lparr>enrollment_course_run := Some late_enrollment\<rparr>"

text \<open>The same entitlement, bound to a run whose course overview is missing.\<close>

definition gone_enrollment :: course_enrollment where
  "gone_enrollment =
     \<lparr>enrollment_pk = 8, enrollment_user = 1, course_id = ''run-gone'',
      enrollment_created = timedelta_days 10\<rparr>"

definition gone_redeemed :: course_entitlement where
  "gone_redeemed = example_entitlement\<lparr>enrollment_course_run := Some gone_enrollment\<rparr>"

text \<open>The same entitlement, bound to the run that has no start date.\<close>

definition unscheduled_enrollment :: course_enrollment where
  "unscheduled_enrollment =
     \<lparr>enrollment_pk = 9, enrollment_user = 1, course_id = ''run-unscheduled'',
      enrollment_created = timedelta_days 10\<rparr>"

definition unscheduled_redeemed :: course_entitlement where
  "unscheduled_redeemed =
     example_entitlement\<lparr>enrollment_course_run := Some unscheduled_enrollment\<rparr>"

text \<open>
  An unredeemed entitlement created on 2018-03-01, day 17591, under a policy whose
  expiration period is 3000000 days: its expiry date would lie after the year 9999.
\<close>

definition entitlement_2018 :: course_entitlement where
  "entitlement_2018 = example_entitlement\<lparr>created := timedelta_days 17591\<rparr>"

definition long_policy :: course_entitlement_policy where
  "long_policy = CourseEntitlementPolicy\<lparr>expiration_period := timedelta_days 3000000\<rparr>"

text \<open>
  A table of four entitlements of user 1, one for each combination of expired and
  redeemed, and one entitlement of user 2.
\<close>

definition example_table :: entitlement_table where
  "example_table =
     [example_entitlement,
      example_redeemed\<lparr>pk := 2, created := timedelta_days 3\<rparr>,
      example_entitlement\<lparr>pk := 3, created := timedelta_days 2, expired_at := Some (timedelta_days 9)\<rparr>,
      example_redeemed\<lparr>pk := 4, created := timedelta_days 1, expired_at := Some (timedelta_days 30)\<rparr>,
      example_entitlement\<lparr>pk := 5, user := 2\<rparr>]"

section \<open>Helper lemmas\<close>

lemma days_floor: "days td = floor_in_days td"
  by (simp add: days_def floor_in_days_def floor_divide_of_int_eq)

lemma floor_in_days_eval: "floor_in_days td = td div 86400000000"
  by (simp add: days_floor[symmetric] days_def one_day_def)

lemma save_member: "self \<in> set (save self db)"
  by (auto simp add: save_def)

lemma save_other_rows:
  "pk row \<noteq> pk self \<Longrightarrow> row \<in> set (save self db) \<longleftrightarrow> row \<in> set db"
  by (auto simp add: save_def)

lemma update_expired_at_already_expired:
  "expired_at e \<noteq> None \<Longrightarrow> update_expired_at env now e db = Inr (e, db)"
  by (simp add: update_expired_at_def)

lemma update_expired_at_repeatedly_already_expired:
  "expired_at e \<noteq> None \<Longrightarrow> update_expired_at_repeatedly env nows e db = Inr (e, db)"
  by (induction nows) (simp_all add: update_expired_at_already_expired)

lemma days_until_expiration_overflow:
  "\<not> is_datetime (created e + expiration_period p) \<Longrightarrow>
   get_days_until_expiration env now p e = Inl OverflowError"
  by (simp add: get_days_until_expiration_def datetime_add_def)

lemma days_until_expiration_unbound:
  "is_datetime (created e + expiration_period p) \<Longrightarrow> enrollment_course_run e = None \<Longrightarrow>
   get_days_until_expiration env now p e = Inr (days (created e + expiration_period p - now))"
  by (simp add: get_days_until_expiration_def datetime_add_def)

lemma days_until_expiration_bound:
  "is_datetime (created e + expiration_period p) \<Longrightarrow>
   enrollment_course_run e = Some enr \<Longrightarrow> get_from_id env (course_id enr) = Inr ov \<Longrightarrow>
   start ov = Some course_start \<Longrightarrow>
   get_days_until_expiration env now p e
     = Inr (min (days (created e + expiration_period p - now))
              (days (regain_period p)
                 - min (days (now - course_start))
                     (min (days (now - enrollment_created enr)) (days (now - created e)))))"
  by (simp add: get_days_until_expiration_def datetime_add_def Let_def min_def)

lemma days_until_expiration_no_start:
  "is_datetime (created e + expiration_period p) \<Longrightarrow>
   enrollment_course_run e = Some enr \<Longrightarrow> get_from_id env (course_id enr) = Inr ov \<Longrightarrow>
   start ov = None \<Longrightarrow>
   get_days_until_expiration env now p e = Inl TypeError"
  by (simp add: get_days_until_expiration_def datetime_add_def)

lemma days_until_expiration_raises:
  "is_datetime (created e + expiration_period p) \<Longrightarrow>
   enrollment_course_run e = Some enr \<Longrightarrow> get_from_id env (course_id enr) = Inl x \<Longrightarrow>
   get_days_until_expiration env now p e = Inl x"
  by (simp add: get_days_until_expiration_def datetime_add_def)

lemma is_datetime_eval:
  "is_datetime t \<longleftrightarrow> - 62135596800000000 \<le> t \<and> t \<le> 253402300799999999"
  by (simp add: is_datetime_def datetime_min_def datetime_max_def timedelta_days_def one_day_def)

lemmas example_defs =
  example_entitlement_def example_redeemed_def example_enrollment_def late_enrollment_def
  late_redeemed_def gone_enrollment_def gone_redeemed_def example_table_def
  unscheduled_enrollment_def unscheduled_redeemed_def entitlement_2018_def long_policy_def
  example_collaborators_def CourseEntitlementPolicy_def policy_def
  timedelta_days_def one_day_def days_def DEFAULT_EXPIRATION_PERIOD_DAYS_def
  DEFAULT_REFUND_PERIOD_DAYS_def DEFAULT_REGAIN_PERIOD_DAYS_def

section \<open>Days until expiration\<close>

text \<open>
  Claim C1, as amended. For every entitlement and reference time \<open>now\<close> for which
  \<open>created + expiration_period\<close> is a datetime, \<^verbatim>\<open>get_days_until_expiration\<close> returns
  the floor, in days, of \<open>(created + expiration_period) - now\<close> when no enrollment course
  run is bound. When one is bound, its course overview is found and has a start date, it
  returns the minimum of that base value and \<^verbatim>\<open>regain_period.days\<close> minus the smallest of
  the three elapsed-day counts: since the course start, since the creation of the
  enrollment, since the creation of the entitlement. When \<open>created + expiration_period\<close>
  lies outside the range of \<^verbatim>\<open>datetime\<close>, the method raises \<^verbatim>\<open>OverflowError\<close>,
  bound or not; when the lookup of the overview raises, it raises the same; when the
  overview found has no start date, it raises \<^verbatim>\<open>TypeError\<close>.
\<close>

theorem get_days_until_expiration_amended:
  "(is_datetime (created e + expiration_period p) \<longrightarrow>
      (enrollment_course_run e = None \<longrightarrow>
         get_days_until_expiration env now p e
           = Inr (floor_in_days ((created e + expiration_period p) - now)))
      \<and> (\<forall>enr ov. enrollment_course_run e = Some enr \<longrightarrow>
            get_from_id env (course_id enr) = Inr ov \<longrightarrow>
            (\<forall>course_start. start ov = Some course_start \<longrightarrow>
               get_days_until_expiration env now p e
                 = Inr (min (floor_in_days ((created e + expiration_period p) - now))
                          (days (regain_period p)
                             - Min {floor_in_days (now - course_start),
                                    floor_in_days (now - enrollment_created enr),
                                    floor_in_days (now - created e)})))
            \<and> (start ov = None \<longrightarrow> get_days_until_expiration env now p e = Inl TypeError))
      \<and> (\<forall>enr x. enrollment_course_run e = Some enr \<longrightarrow>
            get_from_id env (course_id enr) = Inl x \<longrightarrow>
            get_days_until_expiration env now p e = Inl x))
   \<and> (\<not> is_datetime (created e + expiration_period p) \<longrightarrow>
        get_days_until_expiration env now p e = Inl OverflowError)"
proof (intro conjI impI allI)
  assume "is_datetime (created e + expiration_period p)" "enrollment_course_run e = None"
  then show "get_days_until_expiration env now p e
               = Inr (floor_in_days ((created e + expiration_period p) - now))"
    by (simp add: days_until_expiration_unbound days_floor)
next
  fix enr ov course_start
  assume range: "is_datetime (created e + expiration_period p)"
    and bound: "enrollment_course_run e = Some enr"
    and overview: "get_from_id env (course_id enr) = Inr ov"
    and started: "start ov = Some course_start"
  have smallest: "Min {a, b, c} = min a (min b c)" for a b c :: int
    by simp
  show "get_days_until_expiration env now p e
          = Inr (min (floor_in_days ((created e + expiration_period p) - now))
                   (days (regain_period p)
                      - Min {floor_in_days (now - course_start),
                             floor_in_days (now - enrollment_created enr),
                             floor_in_days (now - created e)}))"
    unfolding smallest days_until_expiration_bound [OF range bound overview started]
    by (simp add: days_floor)
next
  fix enr ov
  assume "is_datetime (created e + expiration_period p)" "enrollment_course_run e = Some enr"
    "get_from_id env (course_id enr) = Inr ov" "start ov = None"
  then show "get_days_until_expiration env now p e = Inl TypeError"
    by (rule days_until_expiration_no_start)
next
  fix enr x
  assume "is_datetime (created e + expiration_period p)" "enrollment_course_run e = Some enr"
    "get_from_id env (course_id enr) = Inl x"
  then show "get_days_until_expiration env now p e = Inl x"
    by (rule days_until_expiration_raises)
next
  assume "\<not> is_datetime (created e + expiration_period p)"
  then show "get_days_until_expiration env now p e = Inl OverflowError"
    by (rule days_until_expiration_overflow)
qed

text \<open>
  On day 1 the unredeemed example has 448 whole days left of its 450; on day 12 the example
  redeemed on day 10 (course start on day 10) has 14 - 2 = 12 days of regain left.
\<close>

theorem get_days_until_expiration_amended_witness:
  "is_datetime (created example_entitlement + expiration_period CourseEntitlementPolicy)
   \<and> enrollment_course_run example_entitlement = None
   \<and> get_days_until_expiration example_collaborators (timedelta_days 1 + 5)
        CourseEntitlementPolicy example_entitlement = Inr 448
   \<and> is_datetime (created example_redeemed + expiration_period CourseEntitlementPolicy)
   \<and> enrollment_course_run example_redeemed = Some example_enrollment
   \<and> get_from_id example_collaborators (course_id example_enrollment)
        = Inr \<lparr>overview_id = ''run-A'', start = Some (timedelta_days 10)\<rparr>
   \<and> get_days_until_expiration example_collaborators (timedelta_days 12 + 5)
        CourseEntitlementPolicy example_redeemed = Inr 12"
proof -
  have range: "is_datetime (created example_entitlement + expiration_period CourseEntitlementPolicy)"
    and range': "is_datetime (created example_redeemed + expiration_period CourseEntitlementPolicy)"
    by (simp_all add: is_datetime_eval example_entitlement_def example_redeemed_def
          CourseEntitlementPolicy_def DEFAULT_EXPIRATION_PERIOD_DAYS_def timedelta_days_def
          one_day_def)
  have unbound: "enrollment_course_run example_entitlement = None"
    by (simp add: example_entitlement_def)
  have bound: "enrollment_course_run example_redeemed = Some example_enrollment"
    by (simp add: example_redeemed_def)
  have overview: "get_from_id example_collaborators (course_id example_enrollment)
                    = Inr \<lparr>overview_id = ''run-A'', start = Some (timedelta_days 10)\<rparr>"
    by (simp add: example_collaborators_def example_enrollment_def)
  have started: "start \<lparr>overview_id = ''run-A'', start = Some (timedelta_days 10)\<rparr>
                   = Some (timedelta_days 10)"
    by simp
  have "get_days_until_expiration example_collaborators (timedelta_days 1 + 5)
          CourseEntitlementPolicy example_entitlement
        = Inr (floor_in_days ((created example_entitlement
                 + expiration_period CourseEntitlementPolicy) - (timedelta_days 1 + 5)))"
    using get_days_until_expiration_amended
            [THEN conjunct1, rule_format, OF range, THEN conjunct1, rule_format, OF unbound] .
  also have "\<dots> = Inr 448"
    by (simp add: floor_in_days_eval example_entitlement_def CourseEntitlementPolicy_def
          DEFAULT_EXPIRATION_PERIOD_DAYS_def timedelta_days_def one_day_def)
  finally have first: "get_days_until_expiration example_collaborators (timedelta_days 1 + 5)
          CourseEntitlementPolicy example_entitlement = Inr 448" .
  have "get_days_until_expiration example_collaborators (timedelta_days 12 + 5)
          CourseEntitlementPolicy example_redeemed
        = Inr (min (floor_in_days ((created example_redeemed
                      + expiration_period CourseEntitlementPolicy) - (timedelta_days 12 + 5)))
                 (days (regain_period CourseEntitlementPolicy)
                    - Min {floor_in_days ((timedelta_days 12 + 5) - timedelta_days 10),
                           floor_in_days ((timedelta_days 12 + 5)
                              - enrollment_created example_enrollment),
                           floor_in_days ((timedelta_days 12 + 5) - created example_redeemed)}))"
    using get_days_until_expiration_amended
            [THEN conjunct1, rule_format, OF range', THEN conjunct2, THEN conjunct1,
             rule_format, OF bound overview, THEN conjunct1, rule_format, OF started] .
  also have "\<dots> = Inr 12"
    by (simp add: floor_in_days_eval example_entitlement_def example_redeemed_def
          example_enrollment_def CourseEntitlementPolicy_def days_def
          DEFAULT_EXPIRATION_PERIOD_DAYS_def DEFAULT_REGAIN_PERIOD_DAYS_def
          timedelta_days_def one_day_def)
  finally have second: "get_days_until_expiration example_collaborators (timedelta_days 12 + 5)
          CourseEntitlementPolicy example_redeemed = Inr 12" .
  from range unbound first range' bound overview second show ?thesis
    by blast
qed

text \<open>
  Claim C1 as stated fails. An unredeemed entitlement created on 2018-03-01 under a policy
  with an expiration period of 3000000 days has no days until expiration: the expiry date
  would lie after the year 9999, and \<open>created + expiration_period\<close> raises
  \<^verbatim>\<open>OverflowError\<close>, where the claim promises 2999999. The example bound to a run
  without a start date has none either, under the default policy: the elapsed days since
  the course start do not exist, and the method raises \<^verbatim>\<open>TypeError\<close>. So has the
  example bound to a run whose course overview is missing: the lookup raises.
\<close>

theorem get_days_until_expiration_counterexample:
  "enrollment_course_run entitlement_2018 = None
   \<and> created entitlement_2018 = timedelta_days 17591
   \<and> expiration_period long_policy = timedelta_days 3000000
   \<and> floor_in_days ((created entitlement_2018 + expiration_period long_policy)
        - (timedelta_days 17591 + 5)) = 2999999
   \<and> get_days_until_expiration example_collaborators (timedelta_days 17591 + 5)
        long_policy entitlement_2018 = Inl OverflowError
   \<and> enrollment_course_run unscheduled_redeemed = Some unscheduled_enrollment
   \<and> get_from_id example_collaborators (course_id unscheduled_enrollment)
        = Inr \<lparr>overview_id = ''run-unscheduled'', start = None\<rparr>
   \<and> get_days_until_expiration example_collaborators (timedelta_days 12)
        CourseEntitlementPolicy unscheduled_redeemed = Inl TypeError
   \<and> enrollment_course_run gone_redeemed = Some gone_enrollment
   \<and> get_days_until_expiration example_collaborators (timedelta_days 13)
        CourseEntitlementPolicy gone_redeemed = Inl (Exception ''CourseOverview.DoesNotExist'')"
proof -
  have unbound: "enrollment_course_run entitlement_2018 = None"
    and at: "created entitlement_2018 = timedelta_days 17591"
    and period: "expiration_period long_policy = timedelta_days 3000000"
    by (simp_all add: entitlement_2018_def example_entitlement_def long_policy_def)
  have promised: "floor_in_days ((created entitlement_2018 + expiration_period long_policy)
                    - (timedelta_days 17591 + 5)) = 2999999"
    by (simp add: at period floor_in_days_eval timedelta_days_def one_day_def)
  have "\<not> is_datetime (created entitlement_2018 + expiration_period long_policy)"
    by (simp add: at period is_datetime_eval timedelta_days_def one_day_def)
  then have overflow: "get_days_until_expiration example_collaborators (timedelta_days 17591 + 5)
                         long_policy entitlement_2018 = Inl OverflowError"
    by (rule days_until_expiration_overflow)
  have bound: "enrollment_course_run unscheduled_redeemed = Some unscheduled_enrollment"
    by (simp add: unscheduled_redeemed_def)
  have overview: "get_from_id example_collaborators (course_id unscheduled_enrollment)
                    = Inr \<lparr>overview_id = ''run-unscheduled'', start = None\<rparr>"
    by (simp add: example_collaborators_def unscheduled_enrollment_def)
  have range: "is_datetime (created unscheduled_redeemed
                 + expiration_period CourseEntitlementPolicy)"
    by (simp add: is_datetime_eval unscheduled_redeemed_def example_entitlement_def
          CourseEntitlementPolicy_def DEFAULT_EXPIRATION_PERIOD_DAYS_def timedelta_days_def
          one_day_def)
  have unscheduled: "get_days_until_expiration example_collaborators (timedelta_days 12)
                       CourseEntitlementPolicy unscheduled_redeemed = Inl TypeError"
    by (rule days_until_expiration_no_start [OF range bound overview]) simp
  have bound': "enrollment_course_run gone_redeemed = Some gone_enrollment"
    by (simp add: gone_redeemed_def)
  have missing: "get_from_id example_collaborators (course_id gone_enrollment)
                   = Inl (Exception ''CourseOverview.DoesNotExist'')"
    by (simp add: example_collaborators_def gone_enrollment_def)
  have range': "is_datetime (created gone_redeemed + expiration_period CourseEntitlementPolicy)"
    by (simp add: is_datetime_eval gone_redeemed_def example_entitlement_def
          CourseEntitlementPolicy_def DEFAULT_EXPIRATION_PERIOD_DAYS_def timedelta_days_def
          one_day_def)
  note gone = days_until_expiration_raises
    [where now = "timedelta_days 13", OF range' bound' missing]
  from unbound at period promised overflow bound overview unscheduled bound' gone
  show ?thesis
    by blast
qed

section \<open>Recording the expiration\<close>

text \<open>
  Claim C2. \<^verbatim>\<open>update_expired_at\<close> sets \<^verbatim>\<open>expired_at\<close> to the current time and saves
  the entitlement exactly when \<^verbatim>\<open>expired_at\<close> is unset and either the days until
  expiration are negative or an enrollment course run is bound and the entitlement is not
  regainable; in every other case the entitlement and the table are unchanged. Once
  \<^verbatim>\<open>expired_at\<close> is set, one call or any number of calls, at any clock readings, change
  nothing. (Where \<^verbatim>\<open>expired_at\<close> is unset, \<open>d\<close> and \<open>r\<close> are the values that the two
  predicates return.)
\<close>

theorem update_expired_at_spec:
  "(expired_at e \<noteq> None \<longrightarrow>
      update_expired_at env now e db = Inr (e, db)
      \<and> update_expired_at_repeatedly env nows e db = Inr (e, db))
   \<and> (expired_at e = None \<longrightarrow>
        CourseEntitlement_get_days_until_expiration env now e = Inr d \<longrightarrow>
        CourseEntitlement_is_entitlement_regainable env now e = Inr r \<longrightarrow>
        update_expired_at env now e db
          = (if d < 0 \<or> (enrollment_course_run e \<noteq> None \<and> \<not> r)
             then Inr (e\<lparr>expired_at := Some now\<rparr>, save (e\<lparr>expired_at := Some now\<rparr>) db)
             else Inr (e, db))
        \<and> e\<lparr>expired_at := Some now\<rparr> \<in> set (save (e\<lparr>expired_at := Some now\<rparr>) db))"
proof (intro conjI impI)
  assume "expired_at e \<noteq> None"
  then show "update_expired_at env now e db = Inr (e, db)"
    by (rule update_expired_at_already_expired)
next
  assume "expired_at e \<noteq> None"
  then show "update_expired_at_repeatedly env nows e db = Inr (e, db)"
    by (rule update_expired_at_repeatedly_already_expired)
next
  assume unset: "expired_at e = None"
    and d: "CourseEntitlement_get_days_until_expiration env now e = Inr d"
    and r: "CourseEntitlement_is_entitlement_regainable env now e = Inr r"
  from d have d': "get_days_until_expiration env now (policy e) e = Inr d"
    by (simp add: CourseEntitlement_get_days_until_expiration_def)
  show "update_expired_at env now e db
          = (if d < 0 \<or> (enrollment_course_run e \<noteq> None \<and> \<not> r)
             then Inr (e\<lparr>expired_at := Some now\<rparr>, save (e\<lparr>expired_at := Some now\<rparr>) db)
             else Inr (e, db))"
    using unset d' r by (cases "enrollment_course_run e") (simp_all add: update_expired_at_def)
next
  show "e\<lparr>expired_at := Some now\<rparr> \<in> set (save (e\<lparr>expired_at := Some now\<rparr>) db)"
    by (rule save_member)
qed

text \<open>
  An entitlement expired on day 9 is left as it is on days 500 and 501; the example
  redeemed on day 10 is one day past its regain period on day 25 and is expired then.
\<close>

theorem update_expired_at_spec_witness:
  "expired_at (example_entitlement\<lparr>expired_at := Some (timedelta_days 9)\<rparr>) \<noteq> None
   \<and> update_expired_at example_collaborators (timedelta_days 500)
        (example_entitlement\<lparr>expired_at := Some (timedelta_days 9)\<rparr>) example_table
       = Inr (example_entitlement\<lparr>expired_at := Some (timedelta_days 9)\<rparr>, example_table)
   \<and> update_expired_at_repeatedly example_collaborators [timedelta_days 500, timedelta_days 501]
        (example_entitlement\<lparr>expired_at := Some (timedelta_days 9)\<rparr>) example_table
       = Inr (example_entitlement\<lparr>expired_at := Some (timedelta_days 9)\<rparr>, example_table)
   \<and> expired_at example_redeemed = None
   \<and> CourseEntitlement_get_days_until_expiration example_collaborators (timedelta_days 25)
        example_redeemed = Inr (- 1)
   \<and> CourseEntitlement_is_entitlement_regainable example_collaborators (timedelta_days 25)
        example_redeemed = Inr False
   \<and> update_expired_at example_collaborators (timedelta_days 25) example_redeemed example_table
       = Inr (example_redeemed\<lparr>expired_at := Some (timedelta_days 25)\<rparr>,
              save (example_redeemed\<lparr>expired_at := Some (timedelta_days 25)\<rparr>) example_table)"
proof -
  have d: "CourseEntitlement_get_days_until_expiration example_collaborators (timedelta_days 25)
             example_redeemed = Inr (- 1)"
    by (simp add: CourseEntitlement_get_days_until_expiration_def get_days_until_expiration_def
          datetime_add_def is_datetime_eval example_defs)
  have r: "CourseEntitlement_is_entitlement_regainable example_collaborators (timedelta_days 25)
             example_redeemed = Inr False"
    by (simp add: CourseEntitlement_is_entitlement_regainable_def is_entitlement_regainable_def
          get_days_until_expiration_def datetime_add_def is_datetime_eval example_defs)
  have unset: "expired_at example_redeemed = None"
    by (simp add: example_defs)
  have bound: "enrollment_course_run example_redeemed \<noteq> None"
    by (simp add: example_defs)
  have set: "expired_at (example_entitlement\<lparr>expired_at := Some (timedelta_days 9)\<rparr>) \<noteq> None"
    by simp
  show ?thesis
    using update_expired_at_spec
            [where e = "example_entitlement\<lparr>expired_at := Some (timedelta_days 9)\<rparr>"
               and env = example_collaborators and now = "timedelta_days 500"
               and db = example_table and nows = "[timedelta_days 500, timedelta_days 501]"]
          update_expired_at_spec
            [where e = example_redeemed and env = example_collaborators
               and now = "timedelta_days 25" and db = example_table and d = "- 1" and r = False]
          d r unset bound set
    by (simp del: update_expired_at_repeatedly.simps)
qed

section \<open>Arithmetic of days\<close>

lemma days_less: "days x < n \<longleftrightarrow> x < timedelta_days n"
  unfolding days_def one_day_def timedelta_days_def by arith

lemma days_ge: "n \<le> days x \<longleftrightarrow> timedelta_days n \<le> x"
  unfolding days_def one_day_def timedelta_days_def by arith

lemma days_timedelta_days: "days (timedelta_days n) = n"
  unfolding days_def one_day_def timedelta_days_def by simp

lemma default_periods:
  "expiration_period CourseEntitlementPolicy = timedelta_days 450"
  "refund_period CourseEntitlementPolicy = timedelta_days 60"
  "regain_period CourseEntitlementPolicy = timedelta_days 14"
  by (simp_all add: CourseEntitlementPolicy_def DEFAULT_EXPIRATION_PERIOD_DAYS_def
        DEFAULT_REFUND_PERIOD_DAYS_def DEFAULT_REGAIN_PERIOD_DAYS_def)

section \<open>Regaining\<close>

lemma regainable_expired:
  "expired_at e \<noteq> None \<Longrightarrow> is_entitlement_regainable env now p e = Inr False"
  by (simp add: is_entitlement_regainable_def)

lemma regainable_unbound:
  "enrollment_course_run e = None \<Longrightarrow> is_entitlement_regainable env now p e = Inr False"
  by (simp add: is_entitlement_regainable_def)

lemma regainable_certified:
  "expired_at e = None \<Longrightarrow> enrollment_course_run e = Some enr \<Longrightarrow>
   certificate_for_student env (user e) (course_id enr) = Inr (Some c) \<Longrightarrow>
   is_entitlement_regainable env now p e = Inr False"
  by (simp add: is_entitlement_regainable_def)

lemma regainable_by_days:
  "expired_at e = None \<Longrightarrow> enrollment_course_run e = Some enr \<Longrightarrow>
   certificate_for_student env (user e) (course_id enr) = Inr None \<Longrightarrow>
   get_days_until_expiration env now p e = Inr d \<Longrightarrow>
   is_entitlement_regainable env now p e = Inr (0 \<le> d)"
  by (simp add: is_entitlement_regainable_def)

lemma regainable_from_days:
  "expired_at e = None \<Longrightarrow> enrollment_course_run e = Some enr \<Longrightarrow>
   certificate_for_student env (user e) (course_id enr) = Inr None \<Longrightarrow>
   is_entitlement_regainable env now p e
     = (case get_days_until_expiration env now p e of
          Inl err \<Rightarrow> Inl err
        | Inr d \<Rightarrow> Inr (0 \<le> d))"
  by (simp add: is_entitlement_regainable_def)

lemma regain_day_14:
  assumes "is_datetime (created e + timedelta_days 450)"
    and "enrollment_course_run e = Some enr" "get_from_id env (course_id enr) = Inr ov"
    and "start ov = Some t1" "enrollment_created enr = t1"
    and d: "get_days_until_expiration env (t1 + timedelta_days 14) CourseEntitlementPolicy e
              = Inr d"
  shows "0 \<le> d \<longleftrightarrow> t1 \<le> created e + timedelta_days 436"
proof -
  from assms(1) have r: "is_datetime (created e + expiration_period CourseEntitlementPolicy)"
    by (simp add: default_periods)
  from d [unfolded days_until_expiration_bound [OF r assms(2-4)]] assms(5)
  show ?thesis
    by (simp add: default_periods days_def timedelta_days_def one_day_def; arith)
qed

lemma regain_day_15:
  assumes "is_datetime (created e + timedelta_days 450)"
    and "enrollment_course_run e = Some enr" "get_from_id env (course_id enr) = Inr ov"
    and "start ov = Some t1" "enrollment_created enr = t1" "created e \<le> t1"
    and d: "get_days_until_expiration env (t1 + timedelta_days 15) CourseEntitlementPolicy e
              = Inr d"
  shows "d < 0"
proof -
  from assms(1) have r: "is_datetime (created e + expiration_period CourseEntitlementPolicy)"
    by (simp add: default_periods)
  from d [unfolded days_until_expiration_bound [OF r assms(2-4)]] assms(5,6)
  show ?thesis
    by (simp add: default_periods days_def timedelta_days_def one_day_def; arith)
qed

text \<open>
  Claim C4, as amended. \<^verbatim>\<open>is_entitlement_regainable\<close> is false whenever
  \<^verbatim>\<open>expired_at\<close> is set or no enrollment course run is bound. When a run is bound it is
  false if a certificate exists for that user and course, and otherwise true iff
  \<^verbatim>\<open>get_days_until_expiration\<close> is at least 0, zero included. In particular, with
  \<^verbatim>\<open>expired_at\<close> unset, for an entitlement created at \<open>t0\<close> and a redemption bound at
  \<open>t1 \<ge> t0\<close> with course start also \<open>t1\<close> and no certificate, under the default policy
  it is true at \<open>t1\<close> + 14 days exactly when \<open>t1 \<le> t0\<close> + 436 days (the 450 days of the
  expiration period have not run out by then), and false at \<open>t1\<close> + 15 days. (This is
  for \<open>t0\<close> + 450 days a datetime, as it is for every entitlement created before the year
  9998; otherwise the predicate raises \<^verbatim>\<open>OverflowError\<close> at both instants.)
\<close>

theorem is_entitlement_regainable_amended:
  "(expired_at e \<noteq> None \<longrightarrow> is_entitlement_regainable env now p e = Inr False)
   \<and> (enrollment_course_run e = None \<longrightarrow> is_entitlement_regainable env now p e = Inr False)
   \<and> (\<forall>enr. expired_at e = None \<longrightarrow> enrollment_course_run e = Some enr \<longrightarrow>
        (\<forall>c. certificate_for_student env (user e) (course_id enr) = Inr (Some c) \<longrightarrow>
               is_entitlement_regainable env now p e = Inr False)
        \<and> (\<forall>d. certificate_for_student env (user e) (course_id enr) = Inr None \<longrightarrow>
               get_days_until_expiration env now p e = Inr d \<longrightarrow>
               is_entitlement_regainable env now p e = Inr (0 \<le> d))
        \<and> (\<forall>ov t1. certificate_for_student env (user e) (course_id enr) = Inr None \<longrightarrow>
               get_from_id env (course_id enr) = Inr ov \<longrightarrow>
               start ov = Some t1 \<longrightarrow> enrollment_created enr = t1 \<longrightarrow> created e \<le> t1 \<longrightarrow>
               (is_datetime (created e + timedelta_days 450) \<longrightarrow>
                  is_entitlement_regainable env (t1 + timedelta_days 14) CourseEntitlementPolicy e
                    = Inr (t1 \<le> created e + timedelta_days 436)
                  \<and> is_entitlement_regainable env (t1 + timedelta_days 15) CourseEntitlementPolicy e
                    = Inr False)
               \<and> (\<not> is_datetime (created e + timedelta_days 450) \<longrightarrow>
                  is_entitlement_regainable env (t1 + timedelta_days 14) CourseEntitlementPolicy e
                    = Inl OverflowError
                  \<and> is_entitlement_regainable env (t1 + timedelta_days 15) CourseEntitlementPolicy e
                    = Inl OverflowError)))"
proof (intro conjI impI allI)
  assume "expired_at e \<noteq> None"
  then show "is_entitlement_regainable env now p e = Inr False"
    by (rule regainable_expired)
next
  assume "enrollment_course_run e = None"
  then show "is_entitlement_regainable env now p e = Inr False"
    by (rule regainable_unbound)
next
  fix enr c
  assume "expired_at e = None" "enrollment_course_run e = Some enr"
    "certificate_for_student env (user e) (course_id enr) = Inr (Some c)"
  then show "is_entitlement_regainable env now p e = Inr False"
    by (rule regainable_certified)
next
  fix enr d
  assume "expired_at e = None" "enrollment_course_run e = Some enr"
    "certificate_for_student env (user e) (course_id enr) = Inr None"
    "get_days_until_expiration env now p e = Inr d"
  then show "is_entitlement_regainable env now p e = Inr (0 \<le> d)"
    by (rule regainable_by_days)
next
  fix enr ov t1
  assume a: "expired_at e = None" "enrollment_course_run e = Some enr"
    "certificate_for_student env (user e) (course_id enr) = Inr None"
    and o: "get_from_id env (course_id enr) = Inr ov"
    and t: "start ov = Some t1" "enrollment_created enr = t1"
    and r: "is_datetime (created e + timedelta_days 450)"
  from r have r': "is_datetime (created e + expiration_period CourseEntitlementPolicy)"
    by (simp add: default_periods)
  obtain d where d: "get_days_until_expiration env (t1 + timedelta_days 14)
                       CourseEntitlementPolicy e = Inr d"
    using days_until_expiration_bound [OF r' a(2) o t(1)] by blast
  from regain_day_14 [OF r a(2) o t d] regainable_by_days [OF a d]
  show "is_entitlement_regainable env (t1 + timedelta_days 14) CourseEntitlementPolicy e
          = Inr (t1 \<le> created e + timedelta_days 436)"
    by simp
next
  fix enr ov t1
  assume a: "expired_at e = None" "enrollment_course_run e = Some enr"
    "certificate_for_student env (user e) (course_id enr) = Inr None"
    and o: "get_from_id env (course_id enr) = Inr ov"
    and t: "start ov = Some t1" "enrollment_created enr = t1" "created e \<le> t1"
    and r: "is_datetime (created e + timedelta_days 450)"
  from r have r': "is_datetime (created e + expiration_period CourseEntitlementPolicy)"
    by (simp add: default_periods)
  obtain d where d: "get_days_until_expiration env (t1 + timedelta_days 15)
                       CourseEntitlementPolicy e = Inr d"
    using days_until_expiration_bound [OF r' a(2) o t(1)] by blast
  from regain_day_15 [OF r a(2) o t d] regainable_by_days [OF a d]
  show "is_entitlement_regainable env (t1 + timedelta_days 15) CourseEntitlementPolicy e
          = Inr False"
    by simp
next
  fix enr ov t1
  assume a: "expired_at e = None" "enrollment_course_run e = Some enr"
    "certificate_for_student env (user e) (course_id enr) = Inr None"
    and r: "\<not> is_datetime (created e + timedelta_days 450)"
  from r have r': "\<not> is_datetime (created e + expiration_period CourseEntitlementPolicy)"
    by (simp add: default_periods)
  show "is_entitlement_regainable env (t1 + timedelta_days 14) CourseEntitlementPolicy e
          = Inl OverflowError"
    by (simp add: regainable_from_days [OF a] days_until_expiration_overflow [OF r'])
  show "is_entitlement_regainable env (t1 + timedelta_days 15) CourseEntitlementPolicy e
          = Inl OverflowError"
    by (simp add: regainable_from_days [OF a] days_until_expiration_overflow [OF r'])
qed

text \<open>
  The example redeemed on day 10 for a run starting on day 10 is regainable on day 24 and
  not on day 25; the unredeemed example is not regainable.
\<close>

theorem is_entitlement_regainable_amended_witness:
  "expired_at example_redeemed = None
   \<and> enrollment_course_run example_redeemed = Some example_enrollment
   \<and> certificate_for_student example_collaborators (user example_redeemed)
        (course_id example_enrollment) = Inr None
   \<and> get_from_id example_collaborators (course_id example_enrollment)
        = Inr \<lparr>overview_id = ''run-A'', start = Some (timedelta_days 10)\<rparr>
   \<and> enrollment_created example_enrollment = timedelta_days 10
   \<and> created example_redeemed \<le> timedelta_days 10
   \<and> is_datetime (created example_redeemed + timedelta_days 450)
   \<and> is_entitlement_regainable example_collaborators (timedelta_days 10 + timedelta_days 14)
        CourseEntitlementPolicy example_redeemed = Inr True
   \<and> is_entitlement_regainable example_collaborators (timedelta_days 10 + timedelta_days 15)
        CourseEntitlementPolicy example_redeemed = Inr False
   \<and> enrollment_course_run example_entitlement = None
   \<and> is_entitlement_regainable example_collaborators (timedelta_days 1)
        CourseEntitlementPolicy example_entitlement = Inr False"
proof -
  have unset: "expired_at example_redeemed = None"
    and bound: "enrollment_course_run example_redeemed = Some example_enrollment"
    and at: "enrollment_created example_enrollment = timedelta_days 10"
    and before: "created example_redeemed \<le> timedelta_days 10"
    and unbound: "enrollment_course_run example_entitlement = None"
    by (simp_all add: example_redeemed_def example_enrollment_def example_entitlement_def
          timedelta_days_def one_day_def)
  have range: "is_datetime (created example_redeemed + timedelta_days 450)"
    by (simp add: is_datetime_eval example_redeemed_def example_entitlement_def
          timedelta_days_def one_day_def)
  have overview: "get_from_id example_collaborators (course_id example_enrollment)
                    = Inr \<lparr>overview_id = ''run-A'', start = Some (timedelta_days 10)\<rparr>"
    by (simp add: example_collaborators_def example_enrollment_def)
  have started: "start \<lparr>overview_id = ''run-A'', start = Some (timedelta_days 10)\<rparr>
                   = Some (timedelta_days 10)"
    by simp
  have nocert: "certificate_for_student example_collaborators (user example_redeemed)
                  (course_id example_enrollment) = Inr None"
    by (simp add: example_collaborators_def)
  have within: "timedelta_days 10 \<le> created example_redeemed + timedelta_days 436"
    by (simp add: example_redeemed_def example_entitlement_def timedelta_days_def one_day_def)
  note boundary = is_entitlement_regainable_amended
    [where e = example_redeemed and env = example_collaborators,
     THEN conjunct2, THEN conjunct2, rule_format, OF unset bound,
     THEN conjunct2, THEN conjunct2, rule_format, OF nocert overview started at before,
     THEN conjunct1, rule_format, OF range]
  from boundary within
  have day14: "is_entitlement_regainable example_collaborators
                 (timedelta_days 10 + timedelta_days 14) CourseEntitlementPolicy example_redeemed
               = Inr True"
    by simp
  from boundary
  have day15: "is_entitlement_regainable example_collaborators
                 (timedelta_days 10 + timedelta_days 15) CourseEntitlementPolicy example_redeemed
               = Inr False"
    by simp
  note never = is_entitlement_regainable_amended
    [where e = example_entitlement, THEN conjunct2, THEN conjunct1, rule_format, OF unbound]
  from unset bound nocert overview at before range day14 day15 unbound never show ?thesis
    by blast
qed

text \<open>
  Claim C4 as stated fails for a late redemption. The example entitlement, created at
  instant 0, is redeemable on day 440; redeemed then for a run that starts on day 440, with
  no certificate and \<^verbatim>\<open>expired_at\<close> unset, it is not regainable 14 days later, on day
  454: its 450 days have run out, and the days until expiration are -4.
\<close>

theorem is_entitlement_regainable_counterexample:
  "is_entitlement_redeemable (timedelta_days 440) CourseEntitlementPolicy example_entitlement
   \<and> expired_at late_redeemed = None
   \<and> enrollment_course_run late_redeemed = Some late_enrollment
   \<and> enrollment_created late_enrollment = timedelta_days 440
   \<and> get_from_id example_collaborators (course_id late_enrollment)
        = Inr \<lparr>overview_id = ''run-late'', start = Some (timedelta_days 440)\<rparr>
   \<and> certificate_for_student example_collaborators (user late_redeemed) (course_id late_enrollment)
        = Inr None
   \<and> is_entitlement_regainable example_collaborators (timedelta_days 440 + timedelta_days 14)
        CourseEntitlementPolicy late_redeemed = Inr False"
proof -
  have redeemable: "is_entitlement_redeemable (timedelta_days 440) CourseEntitlementPolicy
                      example_entitlement"
    by (simp add: is_entitlement_redeemable_def get_days_since_created_def example_entitlement_def
          default_periods days_timedelta_days)
  have unset: "expired_at late_redeemed = None"
    and bound: "enrollment_course_run late_redeemed = Some late_enrollment"
    and at: "enrollment_created late_enrollment = timedelta_days 440"
    by (simp_all add: late_redeemed_def late_enrollment_def example_entitlement_def)
  have overview: "get_from_id example_collaborators (course_id late_enrollment)
                    = Inr \<lparr>overview_id = ''run-late'', start = Some (timedelta_days 440)\<rparr>"
    by (simp add: example_collaborators_def late_enrollment_def)
  have nocert: "certificate_for_student example_collaborators (user late_redeemed)
                  (course_id late_enrollment) = Inr None"
    by (simp add: example_collaborators_def)
  have range: "is_datetime (created late_redeemed + expiration_period CourseEntitlementPolicy)"
    by (simp add: is_datetime_eval late_redeemed_def example_entitlement_def default_periods
          timedelta_days_def one_day_def)
  have "get_days_until_expiration example_collaborators (timedelta_days 440 + timedelta_days 14)
          CourseEntitlementPolicy late_redeemed
        = Inr (min (days (created late_redeemed + expiration_period CourseEntitlementPolicy
                            - (timedelta_days 440 + timedelta_days 14)))
                 (days (regain_period CourseEntitlementPolicy)
                    - min (days (timedelta_days 440 + timedelta_days 14 - timedelta_days 440))
                        (min (days (timedelta_days 440 + timedelta_days 14
                                      - enrollment_created late_enrollment))
                           (days (timedelta_days 440 + timedelta_days 14
                                    - created late_redeemed)))))"
    by (rule days_until_expiration_bound [OF range bound overview]) simp
  also have "\<dots> = Inr (- 4)"
    by (simp add: late_redeemed_def late_enrollment_def example_entitlement_def default_periods
          days_def timedelta_days_def one_day_def)
  finally have "get_days_until_expiration example_collaborators
                  (timedelta_days 440 + timedelta_days 14) CourseEntitlementPolicy late_redeemed
                = Inr (- 4)" .
  from regainable_by_days [OF unset bound nocert this]
  have "is_entitlement_regainable example_collaborators (timedelta_days 440 + timedelta_days 14)
          CourseEntitlementPolicy late_redeemed = Inr False"
    by simp
  with redeemable unset bound at overview nocert show ?thesis
    by blast
qed

section \<open>Refunding\<close>

lemma refundable_expired:
  "expired_at e \<noteq> None \<Longrightarrow> is_entitlement_refundable env now p e = Inr False"
  by (simp add: is_entitlement_refundable_def)

lemma refundable_no_order:
  "order_number e = None \<Longrightarrow> is_entitlement_refundable env now p e = Inr False"
  by (simp add: is_entitlement_refundable_def)

lemma refundable_too_late:
  "days (refund_period p) < get_days_since_created now e \<Longrightarrow>
   is_entitlement_refundable env now p e = Inr False"
  by (simp add: is_entitlement_refundable_def)

lemma refundable_in_time:
  "expired_at e = None \<Longrightarrow> order_number e \<noteq> None \<Longrightarrow>
   get_days_since_created now e \<le> days (refund_period p) \<Longrightarrow>
   is_entitlement_refundable env now p e
     = (if enrollment_course_run e \<noteq> None then is_entitlement_regainable env now p e
        else Inr True)"
  by (auto simp add: is_entitlement_refundable_def)

lemma refundable_unredeemed_default:
  assumes "expired_at e = None" "order_number e \<noteq> None" "enrollment_course_run e = None"
  shows "is_entitlement_refundable env now CourseEntitlementPolicy e
           = Inr (now < created e + timedelta_days 61)"
proof -
  have "60 < days (now - created e) \<longleftrightarrow> \<not> now < created e + timedelta_days 61"
    using days_ge [of 61 "now - created e"] by auto
  with assms show ?thesis
    by (auto simp add: is_entitlement_refundable_def get_days_since_created_def default_periods
          days_timedelta_days)
qed

text \<open>
  Claim C5. \<^verbatim>\<open>is_entitlement_refundable\<close> is false if \<^verbatim>\<open>expired_at\<close> is set, false
  if \<^verbatim>\<open>order_number\<close> is absent, and false if the days since creation strictly exceed
  \<^verbatim>\<open>refund_period.days\<close>. Past these three checks it equals
  \<^verbatim>\<open>is_entitlement_regainable\<close> if an enrollment course run is bound, and is true
  otherwise. The boundary day is still refundable: an entitlement with an order, unredeemed
  and not expired, under the default policy, is refundable at creation + 60 days and not at
  creation + 61 days; it is refundable exactly at the instants before creation + 61 days.
\<close>

theorem is_entitlement_refundable_spec:
  "(expired_at e \<noteq> None \<longrightarrow> is_entitlement_refundable env now p e = Inr False)
   \<and> (order_number e = None \<longrightarrow> is_entitlement_refundable env now p e = Inr False)
   \<and> (floor_in_days (refund_period p) < floor_in_days (now - created e) \<longrightarrow>
        is_entitlement_refundable env now p e = Inr False)
   \<and> (expired_at e = None \<longrightarrow> order_number e \<noteq> None \<longrightarrow>
        floor_in_days (now - created e) \<le> floor_in_days (refund_period p) \<longrightarrow>
        is_entitlement_refundable env now p e
          = (if enrollment_course_run e \<noteq> None then is_entitlement_regainable env now p e
             else Inr True))
   \<and> (expired_at e = None \<longrightarrow> order_number e \<noteq> None \<longrightarrow> enrollment_course_run e = None \<longrightarrow>
        is_entitlement_refundable env (created e + timedelta_days 60) CourseEntitlementPolicy e
          = Inr True
        \<and> is_entitlement_refundable env (created e + timedelta_days 61) CourseEntitlementPolicy e
          = Inr False
        \<and> is_entitlement_refundable env now CourseEntitlementPolicy e
          = Inr (now < created e + timedelta_days 61))"
proof (intro conjI impI)
  assume "expired_at e \<noteq> None"
  then show "is_entitlement_refundable env now p e = Inr False"
    by (rule refundable_expired)
next
  assume "order_number e = None"
  then show "is_entitlement_refundable env now p e = Inr False"
    by (rule refundable_no_order)
next
  assume "floor_in_days (refund_period p) < floor_in_days (now - created e)"
  then show "is_entitlement_refundable env now p e = Inr False"
    by (simp add: refundable_too_late get_days_since_created_def days_floor)
next
  assume "expired_at e = None" "order_number e \<noteq> None"
    "floor_in_days (now - created e) \<le> floor_in_days (refund_period p)"
  then show "is_entitlement_refundable env now p e
          = (if enrollment_course_run e \<noteq> None then is_entitlement_regainable env now p e
             else Inr True)"
    by (simp add: refundable_in_time get_days_since_created_def days_floor)
next
  assume a: "expired_at e = None" "order_number e \<noteq> None" "enrollment_course_run e = None"
  show "is_entitlement_refundable env (created e + timedelta_days 60) CourseEntitlementPolicy e
          = Inr True"
    by (simp add: refundable_unredeemed_default [OF a] timedelta_days_def one_day_def)
  show "is_entitlement_refundable env (created e + timedelta_days 61) CourseEntitlementPolicy e
          = Inr False"
    by (simp add: refundable_unredeemed_default [OF a])
  show "is_entitlement_refundable env now CourseEntitlementPolicy e
          = Inr (now < created e + timedelta_days 61)"
    by (rule refundable_unredeemed_default [OF a])
qed

text \<open>
  The unredeemed example, bought with an order at instant 0, is refundable on day 60 and
  not on day 61; without an order it is not refundable on day 1.
\<close>

theorem is_entitlement_refundable_spec_witness:
  "expired_at example_entitlement = None
   \<and> order_number example_entitlement \<noteq> None
   \<and> enrollment_course_run example_entitlement = None
   \<and> is_entitlement_refundable example_collaborators
        (created example_entitlement + timedelta_days 60) CourseEntitlementPolicy
        example_entitlement = Inr True
   \<and> is_entitlement_refundable example_collaborators
        (created example_entitlement + timedelta_days 61) CourseEntitlementPolicy
        example_entitlement = Inr False
   \<and> order_number (example_entitlement\<lparr>order_number := None\<rparr>) = None
   \<and> is_entitlement_refundable example_collaborators (timedelta_days 1) CourseEntitlementPolicy
        (example_entitlement\<lparr>order_number := None\<rparr>) = Inr False"
proof -
  have unset: "expired_at example_entitlement = None"
    and order: "order_number example_entitlement \<noteq> None"
    and unbound: "enrollment_course_run example_entitlement = None"
    by (simp_all add: example_entitlement_def)
  have granted: "order_number (example_entitlement\<lparr>order_number := None\<rparr>) = None"
    by simp
  note boundary = is_entitlement_refundable_spec
    [where e = example_entitlement and env = example_collaborators,
     THEN conjunct2, THEN conjunct2, THEN conjunct2, THEN conjunct2, rule_format,
     OF unset order unbound]
  note no_order = is_entitlement_refundable_spec
    [where e = "example_entitlement\<lparr>order_number := None\<rparr>" and env = example_collaborators
       and now = "timedelta_days 1" and p = CourseEntitlementPolicy,
     THEN conjunct2, THEN conjunct1, rule_format, OF granted]
  from unset order unbound granted boundary [THEN conjunct1]
    boundary [THEN conjunct2, THEN conjunct1] no_order
  show ?thesis
    by blast
qed

section \<open>Redeeming\<close>

lemma redeemable_default:
  "enrollment_course_run e = None \<Longrightarrow> expired_at e = None \<Longrightarrow>
   is_entitlement_redeemable now CourseEntitlementPolicy e
     \<longleftrightarrow> now < created e + timedelta_days 450"
  unfolding is_entitlement_redeemable_def get_days_since_created_def default_periods
    days_timedelta_days
  by (simp add: days_less; arith)

text \<open>
  Claim C6. \<^verbatim>\<open>is_entitlement_redeemable\<close> is true iff the days since creation are
  strictly less than \<^verbatim>\<open>expiration_period.days\<close>, no enrollment course run is bound and
  \<^verbatim>\<open>expired_at\<close> is unset; hence a redeemable entitlement is unredeemed and unexpired.
  Under the default policy of 450 days an unredeemed entitlement (with \<^verbatim>\<open>expired_at\<close>
  unset) created at \<open>t0\<close> is redeemable at every instant before \<open>t0\<close> + 450 days, and no
  entitlement is redeemable at or after that instant.
\<close>

theorem is_entitlement_redeemable_spec:
  "(is_entitlement_redeemable now p e
      \<longleftrightarrow> floor_in_days (now - created e) < floor_in_days (expiration_period p)
          \<and> enrollment_course_run e = None \<and> expired_at e = None)
   \<and> (is_entitlement_redeemable now p e \<longrightarrow>
        enrollment_course_run e = None \<and> expired_at e = None)
   \<and> (enrollment_course_run e = None \<longrightarrow> expired_at e = None \<longrightarrow>
        (is_entitlement_redeemable now CourseEntitlementPolicy e
           \<longleftrightarrow> now < created e + timedelta_days 450))
   \<and> (created e + timedelta_days 450 \<le> now \<longrightarrow>
        \<not> is_entitlement_redeemable now CourseEntitlementPolicy e)"
proof (intro conjI impI)
  show "is_entitlement_redeemable now p e
      \<longleftrightarrow> floor_in_days (now - created e) < floor_in_days (expiration_period p)
          \<and> enrollment_course_run e = None \<and> expired_at e = None"
    by (simp add: is_entitlement_redeemable_def get_days_since_created_def days_floor)
next
  assume "is_entitlement_redeemable now p e"
  then show "enrollment_course_run e = None" "expired_at e = None"
    by (simp_all add: is_entitlement_redeemable_def)
next
  assume "enrollment_course_run e = None" "expired_at e = None"
  then show "is_entitlement_redeemable now CourseEntitlementPolicy e
               \<longleftrightarrow> now < created e + timedelta_days 450"
    by (rule redeemable_default)
next
  assume late: "created e + timedelta_days 450 \<le> now"
  show "\<not> is_entitlement_redeemable now CourseEntitlementPolicy e"
  proof
    assume r: "is_entitlement_redeemable now CourseEntitlementPolicy e"
    then have "enrollment_course_run e = None" "expired_at e = None"
      by (simp_all add: is_entitlement_redeemable_def)
    from redeemable_default [OF this] r late show False
      by simp
  qed
qed

text \<open>
  The unredeemed example, created at instant 0, is redeemable one microsecond before
  day 450 and not on day 450.
\<close>

theorem is_entitlement_redeemable_spec_witness:
  "enrollment_course_run example_entitlement = None
   \<and> expired_at example_entitlement = None
   \<and> timedelta_days 450 - 1 < created example_entitlement + timedelta_days 450
   \<and> is_entitlement_redeemable (timedelta_days 450 - 1) CourseEntitlementPolicy example_entitlement
   \<and> created example_entitlement + timedelta_days 450 \<le> timedelta_days 450
   \<and> \<not> is_entitlement_redeemable (timedelta_days 450) CourseEntitlementPolicy example_entitlement"
proof -
  have unbound: "enrollment_course_run example_entitlement = None"
    and unset: "expired_at example_entitlement = None"
    and before: "timedelta_days 450 - 1 < created example_entitlement + timedelta_days 450"
    and after: "created example_entitlement + timedelta_days 450 \<le> timedelta_days 450"
    by (simp_all add: example_entitlement_def)
  note early = is_entitlement_redeemable_spec
    [where e = example_entitlement and now = "timedelta_days 450 - 1",
     THEN conjunct2, THEN conjunct2, THEN conjunct1, rule_format, OF unbound unset]
  note late = is_entitlement_redeemable_spec
    [where e = example_entitlement and now = "timedelta_days 450",
     THEN conjunct2, THEN conjunct2, THEN conjunct2, rule_format, OF after]
  from early before
  have "is_entitlement_redeemable (timedelta_days 450 - 1) CourseEntitlementPolicy
          example_entitlement"
    by simp
  with unbound unset before after late show ?thesis
    by blast
qed

section \<open>Queries over a user's entitlements\<close>

lemma mset_exclude: "mset (exclude P qs) = filter_mset (\<lambda>row. \<not> P row) (mset qs)"
  by (simp add: exclude_def)

lemma set_exclude: "set (exclude P qs) = {row \<in> set qs. \<not> P row}"
  by (simp add: exclude_def)

lemma order_by_created_desc_sorted:
  "sorted_wrt (\<lambda>a b. created b \<le> created a) (order_by_created_desc qs)"
proof -
  have "sorted (map (\<lambda>row. - created row) (order_by_created_desc qs))"
    unfolding order_by_created_desc_def by (rule sorted_sort_key)
  then show ?thesis
    by (simp add: sorted_map)
qed

lemma set_get_active:
  "set (get_active_entitlements_for_user db usr)
     = {row \<in> set db. user row = usr \<and> \<not> (expired_at row \<noteq> None \<and> enrollment_course_run row = None)}"
  by (auto simp add: get_active_entitlements_for_user_def set_exclude)

lemma set_get_fulfillable:
  "set (get_fulfillable_entitlements db usr)
     = {row \<in> set db. user row = usr \<and> \<not> (expired_at row \<noteq> None \<and> enrollment_course_run row \<noteq> None)}"
  by (auto simp add: get_fulfillable_entitlements_def order_by_created_desc_def set_exclude)

lemma first_member: "first qs = Some row \<Longrightarrow> row \<in> set qs"
  by (cases qs) (simp_all add: first_def)

text \<open>
  Claim C7. For every user, the active-entitlements query returns all of the user's
  entitlements except those that are both expired (\<^verbatim>\<open>expired_at\<close> set) and unredeemed
  (no enrollment course run), and the fulfillable-entitlements query returns all of the
  user's entitlements except those that are both expired and redeemed, ordered newest first
  by creation date. So an expired and redeemed entitlement is active but not fulfillable,
  and an expired and unredeemed one is fulfillable but not active.
\<close>

theorem entitlement_queries:
  "mset (get_active_entitlements_for_user db usr)
     = filter_mset (\<lambda>row. user row = usr
                          \<and> \<not> (expired_at row \<noteq> None \<and> enrollment_course_run row = None)) (mset db)
   \<and> mset (get_fulfillable_entitlements db usr)
     = filter_mset (\<lambda>row. user row = usr
                          \<and> \<not> (expired_at row \<noteq> None \<and> enrollment_course_run row \<noteq> None)) (mset db)
   \<and> sorted_wrt (\<lambda>a b. created b \<le> created a) (get_fulfillable_entitlements db usr)
   \<and> (\<forall>row \<in> set db. user row = usr \<longrightarrow> expired_at row \<noteq> None \<longrightarrow>
        (enrollment_course_run row \<noteq> None \<longrightarrow>
           row \<in> set (get_active_entitlements_for_user db usr)
           \<and> row \<notin> set (get_fulfillable_entitlements db usr))
        \<and> (enrollment_course_run row = None \<longrightarrow>
           row \<in> set (get_fulfillable_entitlements db usr)
           \<and> row \<notin> set (get_active_entitlements_for_user db usr)))"
proof (intro conjI)
  show "mset (get_active_entitlements_for_user db usr)
     = filter_mset (\<lambda>row. user row = usr
                          \<and> \<not> (expired_at row \<noteq> None \<and> enrollment_course_run row = None)) (mset db)"
    by (simp add: get_active_entitlements_for_user_def mset_exclude filter_filter_mset)
  show "mset (get_fulfillable_entitlements db usr)
     = filter_mset (\<lambda>row. user row = usr
                          \<and> \<not> (expired_at row \<noteq> None \<and> enrollment_course_run row \<noteq> None)) (mset db)"
    by (simp add: get_fulfillable_entitlements_def order_by_created_desc_def mset_exclude
          filter_filter_mset)
  show "sorted_wrt (\<lambda>a b. created b \<le> created a) (get_fulfillable_entitlements db usr)"
    unfolding get_fulfillable_entitlements_def by (rule order_by_created_desc_sorted)
  show "\<forall>row \<in> set db. user row = usr \<longrightarrow> expired_at row \<noteq> None \<longrightarrow>
        (enrollment_course_run row \<noteq> None \<longrightarrow>
           row \<in> set (get_active_entitlements_for_user db usr)
           \<and> row \<notin> set (get_fulfillable_entitlements db usr))
        \<and> (enrollment_course_run row = None \<longrightarrow>
           row \<in> set (get_fulfillable_entitlements db usr)
           \<and> row \<notin> set (get_active_entitlements_for_user db usr))"
    unfolding set_get_active set_get_fulfillable by blast
qed

text \<open>
  In the example table, the expired and redeemed row 4 of user 1 is active and not
  fulfillable, the expired and unredeemed row 3 is fulfillable and not active, and the
  fulfillable rows come newest first: row 2 (day 3), row 3 (day 2), row 1 (instant 0).
\<close>

theorem entitlement_queries_witness:
  "example_redeemed\<lparr>pk := 4, created := timedelta_days 1, expired_at := Some (timedelta_days 30)\<rparr>
     \<in> set (get_active_entitlements_for_user example_table 1)
   \<and> example_redeemed\<lparr>pk := 4, created := timedelta_days 1, expired_at := Some (timedelta_days 30)\<rparr>
     \<notin> set (get_fulfillable_entitlements example_table 1)
   \<and> example_entitlement\<lparr>pk := 3, created := timedelta_days 2, expired_at := Some (timedelta_days 9)\<rparr>
     \<in> set (get_fulfillable_entitlements example_table 1)
   \<and> example_entitlement\<lparr>pk := 3, created := timedelta_days 2, expired_at := Some (timedelta_days 9)\<rparr>
     \<notin> set (get_active_entitlements_for_user example_table 1)
   \<and> map pk (get_fulfillable_entitlements example_table 1) = [2, 3, 1]"
proof -
  let ?row3 = "example_entitlement\<lparr>pk := 3, created := timedelta_days 2,
                 expired_at := Some (timedelta_days 9)\<rparr>"
  let ?row4 = "example_redeemed\<lparr>pk := 4, created := timedelta_days 1,
                 expired_at := Some (timedelta_days 30)\<rparr>"
  have mem: "?row3 \<in> set example_table" "?row4 \<in> set example_table"
    by (simp_all add: example_table_def)
  have owner: "user ?row3 = 1" "user ?row4 = 1"
    by (simp_all add: example_entitlement_def example_redeemed_def)
  have expired: "expired_at ?row3 \<noteq> None" "expired_at ?row4 \<noteq> None"
    by simp_all
  have unredeemed: "enrollment_course_run ?row3 = None"
    by (simp add: example_entitlement_def)
  have redeemed: "enrollment_course_run ?row4 \<noteq> None"
    by (simp add: example_redeemed_def)
  note pairs = entitlement_queries
    [of example_table 1, THEN conjunct2, THEN conjunct2, THEN conjunct2]
  from pairs [THEN bspec, OF mem(1), rule_format, OF owner(1) expired(1)] unredeemed
  have three: "?row3 \<in> set (get_fulfillable_entitlements example_table 1)
               \<and> ?row3 \<notin> set (get_active_entitlements_for_user example_table 1)"
    by blast
  from pairs [THEN bspec, OF mem(2), rule_format, OF owner(2) expired(2)] redeemed
  have four: "?row4 \<in> set (get_active_entitlements_for_user example_table 1)
              \<and> ?row4 \<notin> set (get_fulfillable_entitlements example_table 1)"
    by blast
  have order: "map pk (get_fulfillable_entitlements example_table 1) = [2, 3, 1]"
    by (simp add: get_fulfillable_entitlements_def order_by_created_desc_def exclude_def
          example_table_def example_entitlement_def example_redeemed_def timedelta_days_def
          one_day_def)
  from three four order show ?thesis
    by blast
qed

section \<open>Redeeming into a course run\<close>

lemma get_fulfillable_entitlement_found:
  assumes "get_fulfillable_entitlement_for_user_course_run env now db usr course_run_key
             = Inr (Some e)"
  shows "e \<in> set db \<and> user e = usr \<and> enrollment_course_run e = None \<and> expired_at e = None
         \<and> CourseEntitlement_is_entitlement_redeemable now e"
proof -
  from assms obtain c_uuid where
    first: "first (filter (\<lambda>row. course_uuid row = c_uuid) (get_fulfillable_entitlements db usr))
              = Some e"
    and redeemable: "CourseEntitlement_is_entitlement_redeemable now e"
    by (auto simp add: get_fulfillable_entitlement_for_user_course_run_def Let_def
          split: if_splits option.splits sum.splits bool.splits)
  from first have "e \<in> set (filter (\<lambda>row. course_uuid row = c_uuid)
                              (get_fulfillable_entitlements db usr))"
    by (rule first_member)
  then have "e \<in> set (get_fulfillable_entitlements db usr)"
    by simp
  then have "e \<in> set db" "user e = usr"
    by (simp_all add: set_get_fulfillable)
  moreover from redeemable have "enrollment_course_run e = None" "expired_at e = None"
    by (simp_all add: CourseEntitlement_is_entitlement_redeemable_def
          is_entitlement_redeemable_def)
  ultimately show ?thesis
    using redeemable by blast
qed

lemma example_found:
  "k = ''run-full'' \<or> k = ''run-A'' \<Longrightarrow>
   get_fulfillable_entitlement_for_user_course_run example_collaborators (timedelta_days 5)
     [example_entitlement] 1 k = Inr (Some example_entitlement)"
  by (auto simp add: get_fulfillable_entitlement_for_user_course_run_def
        get_fulfillable_entitlements_def order_by_created_desc_def exclude_def first_def
        CourseEntitlement_is_entitlement_redeemable_def is_entitlement_redeemable_def
        get_days_since_created_def example_defs)

lemma fulfill_when_enroll_fails:
  "enroll env (user e) course_run_key (mode e) = Inl CourseEnrollmentException \<Longrightarrow>
   enroll_user_and_fulfill_entitlement env e course_run_key db = Inr (False, e, db)"
  by (simp add: enroll_user_and_fulfill_entitlement_def)

lemma fulfill_when_enroll_succeeds:
  "enroll env (user e) course_run_key (mode e) = Inr enrollment \<Longrightarrow>
   enroll_user_and_fulfill_entitlement env e course_run_key db
     = Inr (True, e\<lparr>enrollment_course_run := Some enrollment\<rparr>,
            save (e\<lparr>enrollment_course_run := Some enrollment\<rparr>) db)"
  by (simp add: enroll_user_and_fulfill_entitlement_def set_enrollment_def)

lemma check_when_found:
  "get_fulfillable_entitlement_for_user_course_run env now db usr course_run_key = Inr (Some e) \<Longrightarrow>
   enroll_user_and_fulfill_entitlement env e course_run_key db = Inr (fulfilled, e', db') \<Longrightarrow>
   check_for_existing_entitlement_and_enroll env now db usr course_run_key = Inr (fulfilled, db')"
  by (simp add: check_for_existing_entitlement_and_enroll_def)

lemma example_saved:
  "save (example_entitlement\<lparr>enrollment_course_run := x\<rparr>) [example_entitlement]
     = [example_entitlement\<lparr>enrollment_course_run := x\<rparr>]"
  by (simp add: save_def)

text \<open>
  Claim C3. For every entitlement and course run key,
  \<^verbatim>\<open>enroll_user_and_fulfill_entitlement\<close> returns false and leaves the entitlement, with
  its \<^verbatim>\<open>enrollment_course_run\<close>, and the table unchanged when
  \<^verbatim>\<open>CourseEnrollment.enroll\<close> fails with a \<^verbatim>\<open>CourseEnrollmentException\<close>; when
  enrolling succeeds it binds the created enrollment to the entitlement, saves it and
  returns true. \<^verbatim>\<open>check_for_existing_entitlement_and_enroll\<close> passes both results on
  for the entitlement that it found.
\<close>

theorem enroll_user_and_fulfill_entitlement_spec:
  "(enroll env (user e) course_run_key (mode e) = Inl CourseEnrollmentException \<longrightarrow>
      enroll_user_and_fulfill_entitlement env e course_run_key db = Inr (False, e, db)
      \<and> (get_fulfillable_entitlement_for_user_course_run env now db usr course_run_key = Inr (Some e) \<longrightarrow>
           check_for_existing_entitlement_and_enroll env now db usr course_run_key = Inr (False, db)))
   \<and> (\<forall>enrollment. enroll env (user e) course_run_key (mode e) = Inr enrollment \<longrightarrow>
        enroll_user_and_fulfill_entitlement env e course_run_key db
          = Inr (True, e\<lparr>enrollment_course_run := Some enrollment\<rparr>,
                 save (e\<lparr>enrollment_course_run := Some enrollment\<rparr>) db)
        \<and> e\<lparr>enrollment_course_run := Some enrollment\<rparr>
             \<in> set (save (e\<lparr>enrollment_course_run := Some enrollment\<rparr>) db)
        \<and> (get_fulfillable_entitlement_for_user_course_run env now db usr course_run_key = Inr (Some e) \<longrightarrow>
             check_for_existing_entitlement_and_enroll env now db usr course_run_key
               = Inr (True, save (e\<lparr>enrollment_course_run := Some enrollment\<rparr>) db)))"
proof (intro conjI impI allI)
  assume fails: "enroll env (user e) course_run_key (mode e) = Inl CourseEnrollmentException"
  then show "enroll_user_and_fulfill_entitlement env e course_run_key db = Inr (False, e, db)"
    by (rule fulfill_when_enroll_fails)
  assume "get_fulfillable_entitlement_for_user_course_run env now db usr course_run_key
            = Inr (Some e)"
  from check_when_found [OF this fulfill_when_enroll_fails [OF fails]]
  show "check_for_existing_entitlement_and_enroll env now db usr course_run_key = Inr (False, db)" .
next
  fix enrollment
  assume succeeds: "enroll env (user e) course_run_key (mode e) = Inr enrollment"
  then show "enroll_user_and_fulfill_entitlement env e course_run_key db
          = Inr (True, e\<lparr>enrollment_course_run := Some enrollment\<rparr>,
                 save (e\<lparr>enrollment_course_run := Some enrollment\<rparr>) db)"
    by (rule fulfill_when_enroll_succeeds)
  show "e\<lparr>enrollment_course_run := Some enrollment\<rparr>
          \<in> set (save (e\<lparr>enrollment_course_run := Some enrollment\<rparr>) db)"
    by (rule save_member)
  assume "get_fulfillable_entitlement_for_user_course_run env now db usr course_run_key
            = Inr (Some e)"
  from check_when_found [OF this fulfill_when_enroll_succeeds [OF succeeds]]
  show "check_for_existing_entitlement_and_enroll env now db usr course_run_key
          = Inr (True, save (e\<lparr>enrollment_course_run := Some enrollment\<rparr>) db)" .
qed

text \<open>
  For the unredeemed example, enrolling in \<open>''run-full''\<close> fails and nothing changes;
  enrolling in \<open>''run-A''\<close> succeeds and the row holds the new enrollment.
\<close>

theorem enroll_user_and_fulfill_entitlement_spec_witness:
  "enroll example_collaborators (user example_entitlement) ''run-full'' (mode example_entitlement)
     = Inl CourseEnrollmentException
   \<and> enroll_user_and_fulfill_entitlement example_collaborators example_entitlement ''run-full''
        [example_entitlement] = Inr (False, example_entitlement, [example_entitlement])
   \<and> get_fulfillable_entitlement_for_user_course_run example_collaborators (timedelta_days 5)
        [example_entitlement] 1 ''run-full'' = Inr (Some example_entitlement)
   \<and> check_for_existing_entitlement_and_enroll example_collaborators (timedelta_days 5)
        [example_entitlement] 1 ''run-full'' = Inr (False, [example_entitlement])
   \<and> enroll example_collaborators (user example_entitlement) ''run-A'' (mode example_entitlement)
     = Inr \<lparr>enrollment_pk = 7, enrollment_user = 1, course_id = ''run-A'',
            enrollment_created = timedelta_days 10\<rparr>
   \<and> get_fulfillable_entitlement_for_user_course_run example_collaborators (timedelta_days 5)
        [example_entitlement] 1 ''run-A'' = Inr (Some example_entitlement)
   \<and> check_for_existing_entitlement_and_enroll example_collaborators (timedelta_days 5)
        [example_entitlement] 1 ''run-A''
       = Inr (True,
              [example_entitlement\<lparr>enrollment_course_run :=
                 Some \<lparr>enrollment_pk = 7, enrollment_user = 1, course_id = ''run-A'',
                       enrollment_created = timedelta_days 10\<rparr>\<rparr>])"
proof -
  have fails: "enroll example_collaborators (user example_entitlement) ''run-full''
                 (mode example_entitlement) = Inl CourseEnrollmentException"
    by (simp add: example_collaborators_def)
  have succeeds: "enroll example_collaborators (user example_entitlement) ''run-A''
                    (mode example_entitlement)
                  = Inr \<lparr>enrollment_pk = 7, enrollment_user = 1, course_id = ''run-A'',
                         enrollment_created = timedelta_days 10\<rparr>"
    by (simp add: example_collaborators_def example_entitlement_def)
  have found_full: "get_fulfillable_entitlement_for_user_course_run example_collaborators
                      (timedelta_days 5) [example_entitlement] 1 ''run-full''
                    = Inr (Some example_entitlement)"
    by (rule example_found) simp
  have found_A: "get_fulfillable_entitlement_for_user_course_run example_collaborators
                   (timedelta_days 5) [example_entitlement] 1 ''run-A''
                 = Inr (Some example_entitlement)"
    by (rule example_found) simp
  note failure = enroll_user_and_fulfill_entitlement_spec
    [where db = "[example_entitlement]", THEN conjunct1, rule_format, OF fails]
  note success = enroll_user_and_fulfill_entitlement_spec
    [where db = "[example_entitlement]", THEN conjunct2, rule_format, OF succeeds]
  from fails succeeds found_full found_A
    failure [THEN conjunct1]
    failure [THEN conjunct2, rule_format, OF found_full]
    success [THEN conjunct2, THEN conjunct2, rule_format, OF found_A]
  show ?thesis
    by (simp add: example_saved)
qed

section \<open>Binding an enrollment\<close>

text \<open>
  Claim C8, as amended. \<^verbatim>\<open>set_enrollment\<close> makes no check: for every entitlement,
  with a run bound or not, it sets \<^verbatim>\<open>enrollment_course_run\<close> to the enrollment given,
  leaves every other field as it was, saves the entitlement, and signals nothing. The guard
  is in the caller: \<^verbatim>\<open>get_fulfillable_entitlement_for_user_course_run\<close> only returns an
  entitlement of the table with no run bound, so every redemption made by
  \<^verbatim>\<open>check_for_existing_entitlement_and_enroll\<close> binds an entitlement that had none.
\<close>

theorem set_enrollment_amended:
  "enrollment_course_run (fst (set_enrollment e enrollment db)) = enrollment
   \<and> (fst (set_enrollment e enrollment db))\<lparr>enrollment_course_run := enrollment_course_run e\<rparr> = e
   \<and> fst (set_enrollment e enrollment db) \<in> set (snd (set_enrollment e enrollment db))
   \<and> (\<forall>found. get_fulfillable_entitlement_for_user_course_run env now db usr course_run_key
                  = Inr (Some found) \<longrightarrow>
          found \<in> set db \<and> enrollment_course_run found = None)
   \<and> (\<forall>db'. check_for_existing_entitlement_and_enroll env now db usr course_run_key
                = Inr (True, db') \<longrightarrow>
          (\<exists>found enr. found \<in> set db \<and> enrollment_course_run found = None
                       \<and> enroll env (user found) course_run_key (mode found) = Inr enr
                       \<and> db' = save (found\<lparr>enrollment_course_run := Some enr\<rparr>) db))"
proof (intro conjI allI impI)
  show "enrollment_course_run (fst (set_enrollment e enrollment db)) = enrollment"
    by (simp add: set_enrollment_def)
  show "(fst (set_enrollment e enrollment db))\<lparr>enrollment_course_run := enrollment_course_run e\<rparr>
          = e"
    by (simp add: set_enrollment_def)
  show "fst (set_enrollment e enrollment db) \<in> set (snd (set_enrollment e enrollment db))"
    by (simp add: set_enrollment_def save_member)
next
  fix found
  assume "get_fulfillable_entitlement_for_user_course_run env now db usr course_run_key
            = Inr (Some found)"
  from get_fulfillable_entitlement_found [OF this]
  show "found \<in> set db" "enrollment_course_run found = None"
    by simp_all
next
  fix db'
  assume c: "check_for_existing_entitlement_and_enroll env now db usr course_run_key
               = Inr (True, db')"
  then obtain found where
    f: "get_fulfillable_entitlement_for_user_course_run env now db usr course_run_key
          = Inr (Some found)"
    by (auto simp add: check_for_existing_entitlement_and_enroll_def
          split: sum.splits option.splits)
  from c f obtain enr where
    enr: "enroll env (user found) course_run_key (mode found) = Inr enr"
    and db': "db' = save (found\<lparr>enrollment_course_run := Some enr\<rparr>) db"
    by (auto simp add: check_for_existing_entitlement_and_enroll_def
          enroll_user_and_fulfill_entitlement_def set_enrollment_def
          split: sum.splits exn.splits)
  from get_fulfillable_entitlement_found [OF f] enr db'
  show "\<exists>found enr. found \<in> set db \<and> enrollment_course_run found = None
                    \<and> enroll env (user found) course_run_key (mode found) = Inr enr
                    \<and> db' = save (found\<lparr>enrollment_course_run := Some enr\<rparr>) db"
    by blast
qed

text \<open>
  The entitlement found for \<open>''run-A''\<close> in the table of the unredeemed example is that
  example, with no run bound.
\<close>

theorem set_enrollment_amended_witness:
  "get_fulfillable_entitlement_for_user_course_run example_collaborators (timedelta_days 5)
     [example_entitlement] 1 ''run-A'' = Inr (Some example_entitlement)
   \<and> example_entitlement \<in> set [example_entitlement]
   \<and> enrollment_course_run example_entitlement = None"
proof -
  have found: "get_fulfillable_entitlement_for_user_course_run example_collaborators
                 (timedelta_days 5) [example_entitlement] 1 ''run-A''
               = Inr (Some example_entitlement)"
    by (rule example_found) simp
  from found set_enrollment_amended
    [THEN conjunct2, THEN conjunct2, THEN conjunct2, THEN conjunct1, rule_format, OF found]
  show ?thesis
    by blast
qed

text \<open>
  Claim C8 as stated fails: \<^verbatim>\<open>set_enrollment\<close> on the example already bound to the
  enrollment in \<open>''run-A''\<close> replaces it with the different enrollment in \<open>''run-late''\<close>,
  in the object and in the table, and returns normally.
\<close>

theorem set_enrollment_counterexample:
  "enrollment_course_run example_redeemed = Some example_enrollment
   \<and> late_enrollment \<noteq> example_enrollment
   \<and> set_enrollment example_redeemed (Some late_enrollment) [example_redeemed]
       = (example_redeemed\<lparr>enrollment_course_run := Some late_enrollment\<rparr>,
          [example_redeemed\<lparr>enrollment_course_run := Some late_enrollment\<rparr>])
   \<and> enrollment_course_run
        (fst (set_enrollment example_redeemed (Some late_enrollment) [example_redeemed]))
       = Some late_enrollment"
  by (simp add: set_enrollment_def save_def example_redeemed_def example_enrollment_def
        late_enrollment_def)

section \<open>Exceptions of the predicates\<close>

lemma days_until_expiration_returns:
  "is_datetime (created e + expiration_period p) \<Longrightarrow>
   enrollment_course_run e = Some enr \<Longrightarrow> get_from_id env (course_id enr) = Inr ov \<Longrightarrow>
   start ov = Some course_start \<Longrightarrow>
   \<exists>d. get_days_until_expiration env now p e = Inr d"
  by (simp add: days_until_expiration_bound)

lemma regainable_returns:
  assumes "is_datetime (created e + expiration_period p)"
    and "enrollment_course_run e = Some enr" "get_from_id env (course_id enr) = Inr ov"
    and "start ov = Some course_start"
    and "certificate_for_student env (user e) (course_id enr) = Inr c"
  shows "\<exists>b. is_entitlement_regainable env now p e = Inr b"
proof -
  from days_until_expiration_returns [OF assms(1-4)]
  obtain d where "get_days_until_expiration env now p e = Inr d"
    by blast
  with assms show ?thesis
    by (cases c) (auto simp add: is_entitlement_regainable_def)
qed

lemma refundable_returns:
  "\<exists>b. is_entitlement_regainable env now p e = Inr b \<Longrightarrow>
   \<exists>b. is_entitlement_refundable env now p e = Inr b"
  by (auto simp add: is_entitlement_refundable_def)

lemma regainable_raises_days:
  "expired_at e = None \<Longrightarrow> enrollment_course_run e = Some enr \<Longrightarrow>
   certificate_for_student env (user e) (course_id enr) = Inr None \<Longrightarrow>
   get_days_until_expiration env now p e = Inl x \<Longrightarrow>
   is_entitlement_regainable env now p e = Inl x"
  by (simp add: regainable_from_days)

lemma regainable_raises_certificate:
  "expired_at e = None \<Longrightarrow> enrollment_course_run e = Some enr \<Longrightarrow>
   certificate_for_student env (user e) (course_id enr) = Inl x \<Longrightarrow>
   is_entitlement_regainable env now p e = Inl x"
  by (simp add: is_entitlement_regainable_def)

lemma refundable_raises:
  "expired_at e = None \<Longrightarrow> order_number e \<noteq> None \<Longrightarrow>
   get_days_since_created now e \<le> days (refund_period p) \<Longrightarrow>
   enrollment_course_run e = Some enr \<Longrightarrow>
   is_entitlement_regainable env now p e = Inl x \<Longrightarrow>
   is_entitlement_refundable env now p e = Inl x"
  by (auto simp add: is_entitlement_refundable_def)

text \<open>
  Claim C9, as amended. \<^verbatim>\<open>is_entitlement_regainable\<close> and
  \<^verbatim>\<open>is_entitlement_refundable\<close> return a boolean whenever \<^verbatim>\<open>expired_at\<close> is set or
  no enrollment course run is bound (not regainable then): nothing is computed or looked
  up. \<^verbatim>\<open>get_days_until_expiration\<close> returns an integer whenever
  \<open>created + expiration_period\<close> is a datetime and either no run is bound or the course
  overview of the bound run is found and has a start date; under these conditions on a
  bound run, and with the certificate lookup returning, the two predicates return too. The
  predicates handle no exception. \<^verbatim>\<open>get_days_until_expiration\<close> raises
  \<^verbatim>\<open>OverflowError\<close> when \<open>created + expiration_period\<close> is outside the range of
  \<^verbatim>\<open>datetime\<close>, the exception of the course overview lookup when that raises, and
  \<^verbatim>\<open>TypeError\<close> when the overview has no start date. \<^verbatim>\<open>is_entitlement_regainable\<close>
  raises what the certificate lookup raises and, with no certificate, what
  \<^verbatim>\<open>get_days_until_expiration\<close> raises; \<^verbatim>\<open>is_entitlement_refundable\<close>, where it
  defers to it, raises what \<^verbatim>\<open>is_entitlement_regainable\<close> raises. None of these is
  turned into the answer ``not regainable'' or ``not refundable''.
\<close>

theorem predicates_return_amended:
  "(expired_at e \<noteq> None \<or> enrollment_course_run e = None \<longrightarrow>
      is_entitlement_regainable env now p e = Inr False
      \<and> (\<exists>b. is_entitlement_refundable env now p e = Inr b))
   \<and> (is_datetime (created e + expiration_period p) \<longrightarrow>
        (enrollment_course_run e = None \<longrightarrow>
           (\<exists>d. get_days_until_expiration env now p e = Inr d))
        \<and> (\<forall>enr ov. enrollment_course_run e = Some enr \<longrightarrow>
              get_from_id env (course_id enr) = Inr ov \<longrightarrow>
              (\<forall>course_start. start ov = Some course_start \<longrightarrow>
                 (\<exists>d. get_days_until_expiration env now p e = Inr d)
                 \<and> (\<forall>c. certificate_for_student env (user e) (course_id enr) = Inr c \<longrightarrow>
                       (\<exists>b. is_entitlement_regainable env now p e = Inr b)
                       \<and> (\<exists>b. is_entitlement_refundable env now p e = Inr b)))
              \<and> (start ov = None \<longrightarrow> get_days_until_expiration env now p e = Inl TypeError))
        \<and> (\<forall>enr x. enrollment_course_run e = Some enr \<longrightarrow>
              get_from_id env (course_id enr) = Inl x \<longrightarrow>
              get_days_until_expiration env now p e = Inl x))
   \<and> (\<not> is_datetime (created e + expiration_period p) \<longrightarrow>
        get_days_until_expiration env now p e = Inl OverflowError)
   \<and> (\<forall>enr x. expired_at e = None \<longrightarrow> enrollment_course_run e = Some enr \<longrightarrow>
        (certificate_for_student env (user e) (course_id enr) = Inl x \<longrightarrow>
           is_entitlement_regainable env now p e = Inl x)
        \<and> (certificate_for_student env (user e) (course_id enr) = Inr None \<longrightarrow>
             get_days_until_expiration env now p e = Inl x \<longrightarrow>
             is_entitlement_regainable env now p e = Inl x)
        \<and> (order_number e \<noteq> None \<longrightarrow>
             get_days_since_created now e \<le> days (refund_period p) \<longrightarrow>
             is_entitlement_regainable env now p e = Inl x \<longrightarrow>
             is_entitlement_refundable env now p e = Inl x))"
proof (intro conjI allI impI)
  assume "expired_at e \<noteq> None \<or> enrollment_course_run e = None"
  then show r: "is_entitlement_regainable env now p e = Inr False"
    using regainable_expired regainable_unbound by blast
  then show "\<exists>b. is_entitlement_refundable env now p e = Inr b"
    by (intro refundable_returns) blast
next
  assume "is_datetime (created e + expiration_period p)" "enrollment_course_run e = None"
  then show "\<exists>d. get_days_until_expiration env now p e = Inr d"
    by (simp add: days_until_expiration_unbound)
next
  fix enr ov course_start
  assume "is_datetime (created e + expiration_period p)"
    "enrollment_course_run e = Some enr" "get_from_id env (course_id enr) = Inr ov"
    "start ov = Some course_start"
  then show "\<exists>d. get_days_until_expiration env now p e = Inr d"
    by (rule days_until_expiration_returns)
next
  fix enr ov course_start c
  assume "is_datetime (created e + expiration_period p)"
    "enrollment_course_run e = Some enr" "get_from_id env (course_id enr) = Inr ov"
    "start ov = Some course_start"
    "certificate_for_student env (user e) (course_id enr) = Inr c"
  then show r: "\<exists>b. is_entitlement_regainable env now p e = Inr b"
    by (rule regainable_returns)
  then show "\<exists>b. is_entitlement_refundable env now p e = Inr b"
    by (rule refundable_returns)
next
  fix enr ov
  assume "is_datetime (created e + expiration_period p)"
    "enrollment_course_run e = Some enr" "get_from_id env (course_id enr) = Inr ov"
    "start ov = None"
  then show "get_days_until_expiration env now p e = Inl TypeError"
    by (rule days_until_expiration_no_start)
next
  fix enr x
  assume "is_datetime (created e + expiration_period p)"
    "enrollment_course_run e = Some enr" "get_from_id env (course_id enr) = Inl x"
  then show "get_days_until_expiration env now p e = Inl x"
    by (rule days_until_expiration_raises)
next
  assume "\<not> is_datetime (created e + expiration_period p)"
  then show "get_days_until_expiration env now p e = Inl OverflowError"
    by (rule days_until_expiration_overflow)
next
  fix enr x
  assume "expired_at e = None" "enrollment_course_run e = Some enr"
    "certificate_for_student env (user e) (course_id enr) = Inl x"
  then show "is_entitlement_regainable env now p e = Inl x"
    by (rule regainable_raises_certificate)
next
  fix enr x
  assume "expired_at e = None" "enrollment_course_run e = Some enr"
    "certificate_for_student env (user e) (course_id enr) = Inr None"
    "get_days_until_expiration env now p e = Inl x"
  then show "is_entitlement_regainable env now p e = Inl x"
    by (rule regainable_raises_days)
next
  fix enr x
  assume "expired_at e = None" "enrollment_course_run e = Some enr"
    "order_number e \<noteq> None" "get_days_since_created now e \<le> days (refund_period p)"
    "is_entitlement_regainable env now p e = Inl x"
  then show "is_entitlement_refundable env now p e = Inl x"
    by (simp add: refundable_raises)
qed

text \<open>
  For the example redeemed for \<open>''run-A''\<close>, whose overview is found and has a start
  date, the three predicates return on day 12; the unredeemed example is not regainable.
\<close>

theorem predicates_return_amended_witness:
  "is_datetime (created example_redeemed + expiration_period CourseEntitlementPolicy)
   \<and> enrollment_course_run example_redeemed = Some example_enrollment
   \<and> get_from_id example_collaborators (course_id example_enrollment)
        = Inr \<lparr>overview_id = ''run-A'', start = Some (timedelta_days 10)\<rparr>
   \<and> certificate_for_student example_collaborators (user example_redeemed)
        (course_id example_enrollment) = Inr None
   \<and> (\<exists>d. get_days_until_expiration example_collaborators (timedelta_days 12)
              CourseEntitlementPolicy example_redeemed = Inr d)
   \<and> (\<exists>b. is_entitlement_regainable example_collaborators (timedelta_days 12)
              CourseEntitlementPolicy example_redeemed = Inr b)
   \<and> (\<exists>b. is_entitlement_refundable example_collaborators (timedelta_days 12)
              CourseEntitlementPolicy example_redeemed = Inr b)
   \<and> enrollment_course_run example_entitlement = None
   \<and> is_entitlement_regainable example_collaborators (timedelta_days 12)
        CourseEntitlementPolicy example_entitlement = Inr False"
proof -
  have range: "is_datetime (created example_redeemed + expiration_period CourseEntitlementPolicy)"
    by (simp add: is_datetime_eval example_redeemed_def example_entitlement_def default_periods
          timedelta_days_def one_day_def)
  have bound: "enrollment_course_run example_redeemed = Some example_enrollment"
    by (simp add: example_redeemed_def)
  have overview: "get_from_id example_collaborators (course_id example_enrollment)
                    = Inr \<lparr>overview_id = ''run-A'', start = Some (timedelta_days 10)\<rparr>"
    by (simp add: example_collaborators_def example_enrollment_def)
  have started: "start \<lparr>overview_id = ''run-A'', start = Some (timedelta_days 10)\<rparr>
                   = Some (timedelta_days 10)"
    by simp
  have nocert: "certificate_for_student example_collaborators (user example_redeemed)
                  (course_id example_enrollment) = Inr None"
    by (simp add: example_collaborators_def)
  have unbound: "expired_at example_entitlement \<noteq> None
                 \<or> enrollment_course_run example_entitlement = None"
    by (simp add: example_entitlement_def)
  note returns = predicates_return_amended
    [where now = "timedelta_days 12" and p = CourseEntitlementPolicy,
     THEN conjunct2, THEN conjunct1, rule_format, OF range,
     THEN conjunct2, THEN conjunct1, rule_format, OF bound overview,
     THEN conjunct1, rule_format, OF started]
  note never = predicates_return_amended
    [where now = "timedelta_days 12" and p = CourseEntitlementPolicy
       and env = example_collaborators,
     THEN conjunct1, rule_format, OF unbound]
  from range bound overview nocert unbound returns [THEN conjunct1]
    returns [THEN conjunct2, rule_format, OF nocert] never [THEN conjunct1]
  show ?thesis
    by (simp add: example_entitlement_def)
qed

text \<open>
  Claim C9 as stated fails: for the example bound to \<open>''run-gone''\<close>, whose course
  overview is missing, the three predicates raise the exception of the lookup on day 12.
\<close>

theorem predicates_raise_counterexample:
  "expired_at gone_redeemed = None
   \<and> order_number gone_redeemed \<noteq> None
   \<and> enrollment_course_run gone_redeemed = Some gone_enrollment
   \<and> get_from_id example_collaborators (course_id gone_enrollment)
        = Inl (Exception ''CourseOverview.DoesNotExist'')
   \<and> get_days_until_expiration example_collaborators (timedelta_days 12)
        CourseEntitlementPolicy gone_redeemed = Inl (Exception ''CourseOverview.DoesNotExist'')
   \<and> is_entitlement_regainable example_collaborators (timedelta_days 12)
        CourseEntitlementPolicy gone_redeemed = Inl (Exception ''CourseOverview.DoesNotExist'')
   \<and> is_entitlement_refundable example_collaborators (timedelta_days 12)
        CourseEntitlementPolicy gone_redeemed = Inl (Exception ''CourseOverview.DoesNotExist'')"
proof -
  have unset: "expired_at gone_redeemed = None"
    and order: "order_number gone_redeemed \<noteq> None"
    and bound: "enrollment_course_run gone_redeemed = Some gone_enrollment"
    and since: "get_days_since_created (timedelta_days 12) gone_redeemed
                  \<le> days (refund_period CourseEntitlementPolicy)"
    by (simp_all add: gone_redeemed_def example_entitlement_def get_days_since_created_def
          default_periods days_timedelta_days)
  have range: "is_datetime (created gone_redeemed + expiration_period CourseEntitlementPolicy)"
    by (simp add: is_datetime_eval gone_redeemed_def example_entitlement_def default_periods
          timedelta_days_def one_day_def)
  have missing: "get_from_id example_collaborators (course_id gone_enrollment)
                   = Inl (Exception ''CourseOverview.DoesNotExist'')"
    by (simp add: example_collaborators_def gone_enrollment_def)
  have nocert: "certificate_for_student example_collaborators (user gone_redeemed)
                  (course_id gone_enrollment) = Inr None"
    by (simp add: example_collaborators_def)
  note d = days_until_expiration_raises
    [where now = "timedelta_days 12", OF range bound missing]
  note r = regainable_raises_days [OF unset bound nocert d]
  note f = refundable_raises [OF unset order since bound r]
  from unset order bound missing d r f show ?thesis
    by blast
qed

section \<open>Finding the fulfillable entitlement\<close>

text \<open>
  When the user has fulfillable entitlements and none is for the course of the run,
  \<^verbatim>\<open>first()\<close> yields \<^verbatim>\<open>None\<close>, which is passed to
  \<^verbatim>\<open>is_course_run_entitlement_fulfillable\<close>. The method returns \<^verbatim>\<open>None\<close> only if that
  check answers false for \<^verbatim>\<open>None\<close>; if it answers true, the call
  \<^verbatim>\<open>entitlement.is_entitlement_redeemable()\<close> on \<^verbatim>\<open>None\<close> raises.
\<close>

lemma no_match_result:
  assumes "get_fulfillable_entitlements db usr \<noteq> []"
    and "get_course_uuid_for_course env course_run_key = Some c_uuid"
    and "\<forall>row \<in> set (get_fulfillable_entitlements db usr). course_uuid row \<noteq> c_uuid"
  shows "get_fulfillable_entitlement_for_user_course_run env now db usr course_run_key
           = (case is_course_run_entitlement_fulfillable env course_run_key None of
                Inl err \<Rightarrow> Inl err
              | Inr False \<Rightarrow> Inr None
              | Inr True \<Rightarrow> Inl AttributeError)"
proof -
  from assms(3) have "filter (\<lambda>row. course_uuid row = c_uuid) (get_fulfillable_entitlements db usr) = []"
    by (simp add: filter_empty_conv)
  then have "first (filter (\<lambda>row. course_uuid row = c_uuid) (get_fulfillable_entitlements db usr))
               = None"
    by (simp add: first_def)
  with assms(1,2) show ?thesis
    by (simp add: get_fulfillable_entitlement_for_user_course_run_def Let_def
          split: sum.splits bool.splits)
qed

text \<open>
  Claim C10 says that \<^verbatim>\<open>get_fulfillable_entitlement_for_user_course_run\<close> returns
  \<^verbatim>\<open>None\<close>, and does not raise, when no entitlement of the user matches the course of
  the run. The code raises: user 1 holds one fulfillable entitlement, for
  \<open>''course-A''\<close>; asked for \<open>''run-B''\<close> of \<open>''course-B''\<close>, with a check that judges
  the run fulfillable, the method ends in an \<open>AttributeError\<close>.
\<close>

theorem get_fulfillable_entitlement_no_match_raises:
  "get_fulfillable_entitlements [example_entitlement] 1 = [example_entitlement]
   \<and> course_uuid example_entitlement = ''course-A''
   \<and> get_course_uuid_for_course example_collaborators ''run-B'' = Some ''course-B''
   \<and> get_fulfillable_entitlement_for_user_course_run example_collaborators (timedelta_days 5)
        [example_entitlement] 1 ''run-B'' = Inl AttributeError"
proof -
  have rows: "get_fulfillable_entitlements [example_entitlement] 1 = [example_entitlement]"
    by (simp add: get_fulfillable_entitlements_def order_by_created_desc_def exclude_def
          example_entitlement_def)
  have course: "course_uuid example_entitlement = ''course-A''"
    by (simp add: example_entitlement_def)
  have resolved: "get_course_uuid_for_course example_collaborators ''run-B'' = Some ''course-B''"
    by (simp add: example_collaborators_def)
  have "get_fulfillable_entitlement_for_user_course_run example_collaborators (timedelta_days 5)
          [example_entitlement] 1 ''run-B''
        = (case is_course_run_entitlement_fulfillable example_collaborators ''run-B'' None of
             Inl err \<Rightarrow> Inl err
           | Inr False \<Rightarrow> Inr None
           | Inr True \<Rightarrow> Inl AttributeError)"
  proof (rule no_match_result [OF _ resolved])
    show "get_fulfillable_entitlements [example_entitlement] 1 \<noteq> []"
      unfolding rows by simp
    show "\<forall>row \<in> set (get_fulfillable_entitlements [example_entitlement] 1).
            course_uuid row \<noteq> ''course-B''"
      unfolding rows by (simp add: course)
  qed
  also have "\<dots> = Inl AttributeError"
    by (simp add: example_collaborators_def)
  finally show ?thesis
    using rows course resolved by simp
qed

end
